theory Spec2Isabelle
  imports Main "HOL-Library.Multiset" "HOL-Library.Word"
begin

section \<open>Arrays of 64-bit integers\<close>

text \<open>
  \<^verbatim>\<open>project.py\<close> turns every matrix and vector it receives into a numpy array
  (\<^verbatim>\<open>np.array(allocation)\<close>) before it computes with it. The entries are the integers of
  the request; numpy holds them in its default integer dtype, the signed 64-bit integer,
  whose array arithmetic wraps around silently. An entry of the model is a word of 64 bits
  (\<open>int64\<close>): \<open>+\<close> and \<open>-\<close> wrap around as numpy's do, and \<open>sint\<close> reads the signed value
  that the comparisons and the messages of the code use. A request with an integer outside
  the 64-bit range is not an input of the model: numpy then chooses another dtype for the
  whole array.

  A one-dimensional array is a list of entries. \<^verbatim>\<open>np.array\<close> of a list of rows is
  the empty one-dimensional array for \<open>[]\<close>, a two-dimensional array with at least one row
  when all rows have one length, and raises otherwise (numpy 1.24 and later). Both are
  kept as a list of rows: \<open>[]\<close> is the empty one-dimensional array.

  An exception is a value: \<open>IndexError\<close> for an index out of range, \<open>NumpyError\<close> for
  the \<^verbatim>\<open>ValueError\<close> or \<^verbatim>\<open>TypeError\<close> numpy raises on operands whose shapes do not fit.
\<close>

type_synonym int64 = "64 word"

datatype error = IndexError | NumpyError

definition np_array :: "int64 list list \<Rightarrow> error + int64 list list" where
  "np_array xs =
     (case xs of
        [] \<Rightarrow> Inr []
      | r # rs \<Rightarrow> if list_all (\<lambda>r'. length r' = length r) rs then Inr xs else Inl NumpyError)"

text \<open>
  Broadcasting: two dimensions fit when they are equal or one of them is 1; an index into
  a dimension of size 1 is 0. The empty one-dimensional array has shape \<open>(0,)\<close>, which
  broadcasts against a matrix as \<open>(1, 0)\<close>.
\<close>

definition bdim :: "nat \<Rightarrow> nat \<Rightarrow> nat option" where
  "bdim a b = (if a = b then Some a else if a = 1 then Some b else if b = 1 then Some a else None)"

definition bidx :: "nat \<Rightarrow> nat \<Rightarrow> nat" where
  "bidx d i = (if d = 1 then 0 else i)"

definition shape2 :: "int64 list list \<Rightarrow> nat \<times> nat" where
  "shape2 xs = (case xs of [] \<Rightarrow> (1, 0) | r # _ \<Rightarrow> (length xs, length r))"

definition np_sub :: "int64 list list \<Rightarrow> int64 list list \<Rightarrow> error + int64 list list" where
  "np_sub x y =
     (if x = [] \<and> y = [] then Inr []
      else
        (case (bdim (fst (shape2 x)) (fst (shape2 y)), bdim (snd (shape2 x)) (snd (shape2 y))) of
           (Some r, Some c) \<Rightarrow>
             Inr (map (\<lambda>i. map (\<lambda>j.
                    x ! bidx (fst (shape2 x)) i ! bidx (snd (shape2 x)) j
                      - y ! bidx (fst (shape2 y)) i ! bidx (snd (shape2 y)) j)
                  [0..<c]) [0..<r])
         | _ \<Rightarrow> Inl NumpyError))"

text \<open>\<^verbatim>\<open>allocation[i]\<close>: a row of the array.\<close>

definition get_row :: "int64 list list \<Rightarrow> nat \<Rightarrow> error + int64 list" where
  "get_row a i = (if i < length a then Inr (a ! i) else Inl IndexError)"

text \<open>
  \<^verbatim>\<open>work += row\<close>: the in-place sum. The row is added entry by entry when it is as long as
  \<open>work\<close>, a row of one entry is broadcast, and any other row raises.
\<close>

definition iadd :: "int64 list \<Rightarrow> int64 list \<Rightarrow> error + int64 list" where
  "iadd work row =
     (if length row = length work then Inr (map2 (\<lambda>w a. w + a) work row)
      else if length row = 1 then Inr (map (\<lambda>w. w + row ! 0) work)
      else Inl NumpyError)"

section \<open>The safety engine: \<^verbatim>\<open>is_safe_state\<close>\<close>

text \<open>
  \<^verbatim>\<open>all(need[i, j] <= work[j] for j in range(len(resources)))\<close>: the generator stops at
  the first \<open>j\<close> that fails, and an index out of range raises when it is reached.
\<close>

fun all_need_le :: "int64 list list \<Rightarrow> int64 list \<Rightarrow> nat \<Rightarrow> nat list \<Rightarrow> error + bool" where
  "all_need_le need work i [] = Inr True"
| "all_need_le need work i (j # js) =
     (if i < length need \<and> j < length (need ! i) \<and> j < length work
      then (if sint (need ! i ! j) \<le> sint (work ! j) then all_need_le need work i js else Inr False)
      else Inl IndexError)"

text \<open>
  The state of the loops: \<open>work\<close>, \<open>finish\<close>, \<open>safe_sequence\<close> and the flag \<open>allocated\<close>.
  \<open>for_processes\<close> is the body of the \<^verbatim>\<open>for i in range(len(processes))\<close> loop, run over
  the indices that are left.
\<close>

type_synonym pass_state = "int64 list \<times> bool list \<times> string list \<times> bool"

fun for_processes ::
  "string list \<Rightarrow> nat \<Rightarrow> int64 list list \<Rightarrow> int64 list list \<Rightarrow> nat list \<Rightarrow> pass_state
     \<Rightarrow> error + pass_state" where
  "for_processes processes m allocation need [] s = Inr s"
| "for_processes processes m allocation need (i # is) (work, finish, safe_sequence, allocated) =
     (if finish ! i then
        for_processes processes m allocation need is (work, finish, safe_sequence, allocated)
      else
        (case all_need_le need work i [0..<m] of
           Inl e \<Rightarrow> Inl e
         | Inr False \<Rightarrow>
             for_processes processes m allocation need is (work, finish, safe_sequence, allocated)
         | Inr True \<Rightarrow>
             (case get_row allocation i of
                Inl e \<Rightarrow> Inl e
              | Inr row \<Rightarrow>
                  (case iadd work row of
                     Inl e \<Rightarrow> Inl e
                   | Inr work' \<Rightarrow>
                       for_processes processes m allocation need is
                         (work', finish[i := True], safe_sequence @ [processes ! i], True)))))"

lemma for_processes_length:
  "for_processes processes m allocation need is (work, finish, sq, al) = Inr (work', finish', sq', al')
   \<Longrightarrow> length sq \<le> length sq' \<and> (al' \<longrightarrow> al \<or> length sq < length sq')"
proof (induction "is" arbitrary: work finish sq al)
  case Nil
  then show ?case by simp
next
  case (Cons i "is")
  consider (skip) "for_processes processes m allocation need is (work, finish, sq, al)
                     = Inr (work', finish', sq', al')"
    | (grant) w where "for_processes processes m allocation need is
                         (w, finish[i := True], sq @ [processes ! i], True)
                       = Inr (work', finish', sq', al')"
    using Cons.prems by (auto split: if_splits sum.splits bool.splits)
  then show ?case
  proof cases
    case skip
    then show ?thesis by (rule Cons.IH)
  next
    case grant
    from Cons.IH [OF grant] show ?thesis by simp
  qed
qed

text \<open>
  The \<^verbatim>\<open>while len(safe_sequence) < len(processes)\<close> loop. A pass that grants nothing
  returns \<^verbatim>\<open>(False, [])\<close>; a pass that grants makes the sequence longer, which is why the
  loop ends.
\<close>

function safe_while ::
  "string list \<Rightarrow> nat \<Rightarrow> int64 list list \<Rightarrow> int64 list list \<Rightarrow> int64 list \<times> bool list \<times> string list
     \<Rightarrow> error + bool \<times> string list" where
  "safe_while processes m allocation need (work, finish, safe_sequence) =
     (if length safe_sequence < length processes then
        (case for_processes processes m allocation need [0..<length processes]
                (work, finish, safe_sequence, False) of
           Inl e \<Rightarrow> Inl e
         | Inr (work', finish', safe_sequence', allocated) \<Rightarrow>
             if \<not> allocated then Inr (False, [])
             else safe_while processes m allocation need (work', finish', safe_sequence'))
      else Inr (True, safe_sequence))"
  by pat_completeness auto
termination
proof (relation "measure (\<lambda>(processes, m, allocation, need, work, finish, sq).
                   length processes - length sq)")
  show "wf (measure (\<lambda>(processes, m, allocation, need, work, finish, sq).
                   length processes - length sq))"
    by simp
next
  fix processes :: "string list" and m allocation need work finish safe_sequence
    and x :: pass_state and work' y finish' z safe_sequence' allocated
  assume lt: "length safe_sequence < length processes"
    and run: "for_processes processes m allocation need [0..<length processes]
                (work, finish, safe_sequence, False) = Inr x"
    and x: "(work', y) = x" "(finish', z) = y" "(safe_sequence', allocated) = z"
    and al: "\<not> \<not> allocated"
  from run x have "for_processes processes m allocation need [0..<length processes]
                (work, finish, safe_sequence, False)
              = Inr (work', finish', safe_sequence', allocated)"
    by simp
  from for_processes_length [OF this] al have "length safe_sequence < length safe_sequence'"
    by simp
  with lt show "((processes, m, allocation, need, work', finish', safe_sequence'),
          (processes, m, allocation, need, work, finish, safe_sequence))
        \<in> measure (\<lambda>(processes, m, allocation, need, work, finish, sq).
                   length processes - length sq)"
    by simp
qed

definition is_safe_state ::
  "string list \<Rightarrow> string list \<Rightarrow> int64 list list \<Rightarrow> int64 list list \<Rightarrow> int64 list
     \<Rightarrow> error + bool \<times> string list" where
  "is_safe_state processes resources allocation max_demand available =
     (case np_array allocation of
        Inl e \<Rightarrow> Inl e
      | Inr a \<Rightarrow>
          (case np_array max_demand of
             Inl e \<Rightarrow> Inl e
           | Inr md \<Rightarrow>
               (case np_sub md a of
                  Inl e \<Rightarrow> Inl e
                | Inr need \<Rightarrow>
                    safe_while processes (length resources) a need
                      (available, replicate (length processes) False, []))))"

section \<open>The deadlock detector: \<^verbatim>\<open>detect_deadlock\<close>\<close>

text \<open>Reading an entry: \<^verbatim>\<open>a[i][j]\<close> of a matrix and \<^verbatim>\<open>v[j]\<close> of a vector.\<close>

definition get2 :: "int64 list list \<Rightarrow> nat \<Rightarrow> nat \<Rightarrow> error + int64" where
  "get2 a i j = (if i < length a \<and> j < length (a ! i) then Inr (a ! i ! j) else Inl IndexError)"

definition get1 :: "int64 list \<Rightarrow> nat \<Rightarrow> error + int64" where
  "get1 v j = (if j < length v then Inr (v ! j) else Inl IndexError)"

text \<open>
  The graph \<^verbatim>\<open>nx.DiGraph()\<close> keeps its nodes, and the successors of each node, in the
  order of their insertion: a list of nodes, each with its colour attribute (if it has one)
  and its successors. \<^verbatim>\<open>add_node\<close> of a node that is there sets its colour;
  \<^verbatim>\<open>add_edge\<close> adds the end points that are missing and leaves an edge that is there
  where it is.
\<close>

type_synonym digraph = "(string \<times> string option \<times> string list) list"

fun add_node :: "digraph \<Rightarrow> string \<Rightarrow> string \<Rightarrow> digraph" where
  "add_node [] p c = [(p, Some c, [])]"
| "add_node ((q, a, ss) # g) p c =
     (if q = p then (q, Some c, ss) # g else (q, a, ss) # add_node g p c)"

definition ensure_node :: "digraph \<Rightarrow> string \<Rightarrow> digraph" where
  "ensure_node g p = (if p \<in> set (map fst g) then g else g @ [(p, None, [])])"

fun add_succ :: "digraph \<Rightarrow> string \<Rightarrow> string \<Rightarrow> digraph" where
  "add_succ [] u v = []"
| "add_succ ((q, a, ss) # g) u v =
     (if q = u then (q, a, if v \<in> set ss then ss else ss @ [v]) # g
      else (q, a, ss) # add_succ g u v)"

definition add_edge :: "digraph \<Rightarrow> string \<Rightarrow> string \<Rightarrow> digraph" where
  "add_edge g u v = add_succ (ensure_node (ensure_node g u) v) u v"

text \<open>
  An entry of the returned cycle: the pair \<^verbatim>\<open>(p, "Resources")\<close> of the first check, or
  the triple \<^verbatim>\<open>(u, v, direction)\<close> that \<^verbatim>\<open>nx.find_cycle\<close> returns.
\<close>

datatype edge = Edge2 string string | Edge3 string string string

text \<open>
  The first check, \<^verbatim>\<open>for i in range(len(processes))\<close> with its \<^verbatim>\<open>break\<close>: the value of
  \<^verbatim>\<open>all_processes_need\<close> when the loop is left.
\<close>

fun all_processes_need :: "int64 list list \<Rightarrow> nat list \<Rightarrow> error + bool" where
  "all_processes_need need [] = Inr True"
| "all_processes_need need (i # is) =
     (case get_row need i of
        Inl e \<Rightarrow> Inl e
      | Inr row \<Rightarrow> if list_all (\<lambda>x. x = 0) row then Inr False else all_processes_need need is)"

text \<open>
  The body of the two nested \<^verbatim>\<open>enumerate\<close> loops at \<open>(i, j)\<close>. The condition of the
  waiting edge is a chain of \<^verbatim>\<open>and\<close>: an entry is read only when the ones before it hold.
\<close>

definition waiting :: "int64 list list \<Rightarrow> int64 list list \<Rightarrow> int64 list \<Rightarrow> nat \<Rightarrow> nat \<Rightarrow> error + bool" where
  "waiting need allocation available i j =
     (case get2 need i j of
        Inl e \<Rightarrow> Inl e
      | Inr n \<Rightarrow>
          if 0 < sint n then
            (case get2 allocation i j of
               Inl e \<Rightarrow> Inl e
             | Inr a \<Rightarrow>
                 if a = 0 then
                   (case get1 available j of Inl e \<Rightarrow> Inl e | Inr v \<Rightarrow> Inr (v = 0))
                 else Inr False)
          else Inr False)"

fun add_edges ::
  "string list \<Rightarrow> string list \<Rightarrow> int64 list list \<Rightarrow> int64 list list \<Rightarrow> int64 list
     \<Rightarrow> (nat \<times> nat) list \<Rightarrow> digraph \<Rightarrow> error + digraph" where
  "add_edges processes resources need allocation available [] g = Inr g"
| "add_edges processes resources need allocation available ((i, j) # ps) g =
     (case waiting need allocation available i j of
        Inl e \<Rightarrow> Inl e
      | Inr w \<Rightarrow>
          (case get2 allocation i j of
             Inl e \<Rightarrow> Inl e
           | Inr a \<Rightarrow>
               add_edges processes resources need allocation available ps
                 (let g1 = (if w then add_edge g (processes ! i) (resources ! j) else g)
                  in if 0 < sint a then add_edge g1 (resources ! j) (processes ! i) else g1)))"

definition build_graph ::
  "string list \<Rightarrow> string list \<Rightarrow> int64 list list \<Rightarrow> int64 list list \<Rightarrow> int64 list \<Rightarrow> error + digraph" where
  "build_graph processes resources need allocation available =
     add_edges processes resources need allocation available
       (List.product [0..<length processes] [0..<length resources])
       (foldl (\<lambda>g r. add_node g r ''red'')
          (foldl (\<lambda>g p. add_node g p ''blue'') [] processes) resources)"

text \<open>
  \<^verbatim>\<open>nx.find_cycle(G, orientation='original')\<close> is networkx's, not this repository's: it is
  the parameter \<open>find_cycle\<close>, which gives the edges of a cycle, or \<open>None\<close> where networkx
  raises \<^verbatim>\<open>NetworkXNoCycle\<close>.
\<close>

definition detect_deadlock ::
  "(digraph \<Rightarrow> edge list option) \<Rightarrow> string list \<Rightarrow> string list \<Rightarrow> int64 list list \<Rightarrow> int64 list list
     \<Rightarrow> int64 list \<Rightarrow> error + bool \<times> edge list" where
  "detect_deadlock find_cycle processes resources allocation max_demand available =
     (case np_array allocation of
        Inl e \<Rightarrow> Inl e
      | Inr a \<Rightarrow>
          (case np_array max_demand of
             Inl e \<Rightarrow> Inl e
           | Inr md \<Rightarrow>
               (case np_sub md a of
                  Inl e \<Rightarrow> Inl e
                | Inr need \<Rightarrow>
                    (case (if list_all (\<lambda>x. x = 0) available
                           then all_processes_need need [0..<length processes]
                           else Inr False) of
                       Inl e \<Rightarrow> Inl e
                     | Inr True \<Rightarrow> Inr (True, map (\<lambda>p. Edge2 p ''Resources'') processes)
                     | Inr False \<Rightarrow>
                         (case build_graph processes resources need a available of
                            Inl e \<Rightarrow> Inl e
                          | Inr g \<Rightarrow>
                              (case find_cycle g of
                                 Some cycle \<Rightarrow> Inr (True, cycle)
                               | None \<Rightarrow> Inr (False, [])))))))"

section \<open>The validator: \<^verbatim>\<open>validate_input\<close>\<close>

text \<open>
  The messages are f-strings; \<open>str_nat\<close> and \<open>str_int\<close> print a number in decimal, as
  Python does in an f-string.
\<close>

definition digit :: "nat \<Rightarrow> char" where
  "digit d = char_of (48 + d)"

fun str_nat :: "nat \<Rightarrow> string" where
  "str_nat n = (if n < 10 then [digit n] else str_nat (n div 10) @ [digit (n mod 10)])"

definition str_int :: "int \<Rightarrow> string" where
  "str_int i = (if i < 0 then CHR ''-'' # str_nat (nat (- i)) else str_nat (nat i))"

text \<open>
  The message of the result: a text of \<^verbatim>\<open>validate_input\<close>'s own, or the text
  \<^verbatim>\<open>Invalid input format: ...\<close> of the \<^verbatim>\<open>except\<close> branch, which ends with the library's
  description of the exception and is kept as the exception.
\<close>

datatype message = Text string | Invalid_input_format error

text \<open>
  The loop of the check \<^verbatim>\<open>allocation[i][j] > max_demand[i][j]\<close>, over the pairs \<open>(i, j)\<close>
  row by row: the message of the first violation, if there is one.
\<close>

fun check_allocation ::
  "string list \<Rightarrow> string list \<Rightarrow> int64 list list \<Rightarrow> int64 list list \<Rightarrow> (nat \<times> nat) list
     \<Rightarrow> error + string option" where
  "check_allocation processes resources allocation max_demand [] = Inr None"
| "check_allocation processes resources allocation max_demand ((i, j) # ps) =
     (case get2 allocation i j of
        Inl e \<Rightarrow> Inl e
      | Inr a \<Rightarrow>
          (case get2 max_demand i j of
             Inl e \<Rightarrow> Inl e
           | Inr d \<Rightarrow>
               if sint d < sint a then
                 Inr (Some (''Invalid: Process '' @ processes ! i @ '' is allocated ''
                            @ str_int (sint a)
                            @ '' units of resource '' @ resources ! j
                            @ '', but declared max need is '' @ str_int (sint d)))
               else check_allocation processes resources allocation max_demand ps))"

text \<open>\<^verbatim>\<open>all(available[j] >= 0 for j in range(len(resources)))\<close>.\<close>

fun all_available_ge0 :: "int64 list \<Rightarrow> nat list \<Rightarrow> error + bool" where
  "all_available_ge0 available [] = Inr True"
| "all_available_ge0 available (j # js) =
     (case get1 available j of
        Inl e \<Rightarrow> Inl e
      | Inr v \<Rightarrow> if 0 \<le> sint v then all_available_ge0 available js else Inr False)"

text \<open>
  The body of the \<^verbatim>\<open>try\<close>: the checks in the order of the code, each returning at once
  when it fails. \<^verbatim>\<open>np.sum(allocation, axis=0)\<close> is computed there and never used.
\<close>

definition validate_checks ::
  "string list \<Rightarrow> string list \<Rightarrow> int64 list list \<Rightarrow> int64 list list \<Rightarrow> int64 list
     \<Rightarrow> error + bool \<times> string" where
  "validate_checks processes resources allocation max_demand available =
     (case np_array allocation of
        Inl e \<Rightarrow> Inl e
      | Inr a \<Rightarrow>
          (case np_array max_demand of
             Inl e \<Rightarrow> Inl e
           | Inr md \<Rightarrow>
               if length processes \<noteq> length a then
                 Inr (False, ''Number of processes ('' @ str_nat (length processes)
                             @ '') doesn't match allocation matrix rows (''
                             @ str_nat (length a) @ '')'')
               else
                 (case get_row a 0 of
                    Inl e \<Rightarrow> Inl e
                  | Inr row0 \<Rightarrow>
                      if length resources \<noteq> length row0 then
                        Inr (False, ''Number of resources ('' @ str_nat (length resources)
                                    @ '') doesn't match allocation matrix columns (''
                                    @ str_nat (length row0) @ '')'')
                      else if length md \<noteq> length a then
                        Inr (False, ''Max demand matrix dimensions don't match allocation matrix'')
                      else
                        (case check_allocation processes resources a md
                                (List.product [0..<length processes] [0..<length resources]) of
                           Inl e \<Rightarrow> Inl e
                         | Inr (Some msg) \<Rightarrow> Inr (False, msg)
                         | Inr None \<Rightarrow>
                             (case all_available_ge0 available [0..<length resources] of
                                Inl e \<Rightarrow> Inl e
                              | Inr False \<Rightarrow> Inr (False, ''Available resources cannot be negative'')
                              | Inr True \<Rightarrow> Inr (True, ''''))))))"

definition validate_input ::
  "string list \<Rightarrow> string list \<Rightarrow> int64 list list \<Rightarrow> int64 list list \<Rightarrow> int64 list
     \<Rightarrow> bool \<times> message" where
  "validate_input processes resources allocation max_demand available =
     (case validate_checks processes resources allocation max_demand available of
        Inl e \<Rightarrow> (False, Invalid_input_format e)
      | Inr (ok, msg) \<Rightarrow> (ok, Text msg))"

section \<open>The total resources of \<^verbatim>\<open>simulate\<close>\<close>

text \<open>
  \<^verbatim>\<open>np.sum(allocation, axis=0)\<close>: the sums of the columns, in 64-bit arithmetic. The sum of
  the empty one-dimensional array is the scalar 0, which broadcasts as an array of one
  entry does; \<^verbatim>\<open>simulate\<close> takes the sum after \<open>validate_input\<close> has accepted the input,
  when the allocation matrix has a row.
\<close>

definition np_sum_axis0 :: "int64 list list \<Rightarrow> int64 list" where
  "np_sum_axis0 a =
     (case a of
        [] \<Rightarrow> [0]
      | r # rs \<Rightarrow> foldl (\<lambda>acc row. map2 (\<lambda>x y. x + y) acc row) r rs)"

text \<open>\<^verbatim>\<open>total_allocated + total_available\<close>: the sum of two vectors, with broadcasting.\<close>

definition np_add1 :: "int64 list \<Rightarrow> int64 list \<Rightarrow> error + int64 list" where
  "np_add1 x y =
     (case bdim (length x) (length y) of
        None \<Rightarrow> Inl NumpyError
      | Some c \<Rightarrow>
          Inr (map (\<lambda>j. x ! bidx (length x) j + y ! bidx (length y) j) [0..<c]))"

text \<open>
  \<^verbatim>\<open>simulate\<close> up to \<^verbatim>\<open>total_resources = total_allocated + total_available\<close>: an input
  that \<open>validate_input\<close> rejects is answered as a bad request with the message, an exception
  is answered as a server error, and otherwise the total is computed. It is the divisor of
  \<^verbatim>\<open>utilization = (total_allocated / total_resources * 100)\<close>; the division and the
  product are operations on floating-point numbers and are not modelled. Where the divisor
  is 0 numpy gives \<^verbatim>\<open>nan\<close> or an infinity, not a number.
\<close>

datatype 'a response = Bad_request message | Server_error error | Computed 'a

definition total_resources ::
  "string list \<Rightarrow> string list \<Rightarrow> int64 list list \<Rightarrow> int64 list list \<Rightarrow> int64 list
     \<Rightarrow> int64 list response" where
  "total_resources processes resources allocation max_demand available =
     (case validate_input processes resources allocation max_demand available of
        (False, msg) \<Rightarrow> Bad_request msg
      | (True, msg) \<Rightarrow>
          (case np_array allocation of
             Inl e \<Rightarrow> Server_error e
           | Inr a \<Rightarrow>
               (case np_add1 (np_sum_axis0 a) available of
                  Inl e \<Rightarrow> Server_error e
                | Inr tr \<Rightarrow> Computed tr)))"

section \<open>Notions of the statements and proofs\<close>

text \<open>
  \<open>matrix n m a\<close>: the rows of \<open>a\<close> are \<open>n\<close> rows of \<open>m\<close> entries. \<open>grantable\<close> is the test of
  a pass of \<open>for_processes\<close> on well-shaped arrays, \<open>add_row\<close> the release of a granted
  process's allocation, and \<open>finished\<close> the set of the processes whose \<open>finish\<close> flag is set.
\<close>

definition matrix :: "nat \<Rightarrow> nat \<Rightarrow> int64 list list \<Rightarrow> bool" where
  "matrix n m a = (length a = n \<and> list_all (\<lambda>r. length r = m) a)"

definition grantable :: "nat \<Rightarrow> int64 list list \<Rightarrow> int64 list \<Rightarrow> nat \<Rightarrow> bool" where
  "grantable m need work i = list_all (\<lambda>j. sint (need ! i ! j) \<le> sint (work ! j)) [0..<m]"

definition add_row :: "int64 list \<Rightarrow> int64 list \<Rightarrow> int64 list" where
  "add_row work row = map2 (\<lambda>w a. w + a) work row"

definition finished :: "nat \<Rightarrow> bool list \<Rightarrow> nat set" where
  "finished n finish = set (filter (\<lambda>i. finish ! i) [0..<n])"

text \<open>
  \<open>can_finish n m a need av F\<close>: the processes of the set \<open>F\<close> can finish one after the other,
  each one granted from the available units and the allocations released by the ones before
  it.
\<close>

inductive can_finish :: "nat \<Rightarrow> nat \<Rightarrow> int64 list list \<Rightarrow> int64 list list \<Rightarrow> int64 list \<Rightarrow> nat set \<Rightarrow> bool"
  for n m a need av where
  none: "can_finish n m a need av {}"
| grant: "can_finish n m a need av F \<Longrightarrow> i < n \<Longrightarrow> i \<notin> F
          \<Longrightarrow> list_all (\<lambda>j. sint (need ! i ! j) \<le> sint (av ! j) + (\<Sum>k\<in>F. sint (a ! k ! j))) [0..<m]
          \<Longrightarrow> can_finish n m a need av (insert i F)"

text \<open>
  The two nodes of an entry of the returned cycle. A list of entries is a cycle when it is
  not empty, each entry ends where the next one starts, and the last one ends where the
  first one starts.
\<close>

fun edge_tail :: "edge \<Rightarrow> string" where
  "edge_tail (Edge2 u v) = u"
| "edge_tail (Edge3 u v d) = u"

fun edge_head :: "edge \<Rightarrow> string" where
  "edge_head (Edge2 u v) = v"
| "edge_head (Edge3 u v d) = v"

definition edge_nodes :: "edge \<Rightarrow> string list" where
  "edge_nodes e = [edge_tail e, edge_head e]"

fun chained :: "edge list \<Rightarrow> bool" where
  "chained [] = True"
| "chained [e] = True"
| "chained (e # f # es) = (edge_head e = edge_tail f \<and> chained (f # es))"

definition is_cycle :: "edge list \<Rightarrow> bool" where
  "is_cycle es = (es \<noteq> [] \<and> chained es \<and> edge_head (last es) = edge_tail (hd es))"

section \<open>Well-shaped inputs\<close>

text \<open>
  On matrices of one shape, \<open>n\<close> rows of \<open>m\<close> entries, no operation of the engines
  raises: the arrays are the lists themselves, the need matrix is the entrywise difference,
  and a pass of \<open>for_processes\<close> either skips a process or grants it.
\<close>

lemma matrix_row: "matrix n m a \<Longrightarrow> i < n \<Longrightarrow> length (a ! i) = m"
  by (simp add: matrix_def list_all_length)

lemma matrix_length: "matrix n m a \<Longrightarrow> length a = n"
  by (simp add: matrix_def)

lemma np_array_matrix: "matrix n m a \<Longrightarrow> np_array a = Inr a"
  by (cases a) (auto simp: matrix_def np_array_def list_all_iff)

lemma np_sub_matrix:
  assumes x: "matrix n m x" and y: "matrix n m y"
  shows "np_sub x y = Inr (map (\<lambda>i. map (\<lambda>j. x ! i ! j - y ! i ! j) [0..<m]) [0..<n])"
proof (cases "n = 0")
  case True
  with x y show ?thesis by (simp add: matrix_def np_sub_def)
next
  case False
  from False x have sx: "shape2 x = (n, m)" and x0: "x \<noteq> []"
    by (cases x; auto simp: shape2_def matrix_def)+
  from False y have sy: "shape2 y = (n, m)"
    by (cases y) (auto simp: shape2_def matrix_def)
  have bi: "\<And>i. i < n \<Longrightarrow> bidx n i = i" by (auto simp: bidx_def)
  have bj: "\<And>j. j < m \<Longrightarrow> bidx m j = j" by (auto simp: bidx_def)
  from x0 show ?thesis
    by (simp add: np_sub_def sx sy bdim_def bi bj cong: map_cong)
qed

lemma need_matrix:
  "matrix n m (map (\<lambda>i. map (\<lambda>j. f i j) [0..<m]) [0..<n])"
  by (simp add: matrix_def list_all_iff)

lemma all_need_le_list:
  "i < length need \<Longrightarrow> list_all (\<lambda>j. j < length (need ! i) \<and> j < length work) js
   \<Longrightarrow> all_need_le need work i js = Inr (list_all (\<lambda>j. sint (need ! i ! j) \<le> sint (work ! j)) js)"
  by (induction js) auto

lemma all_need_le_grantable:
  "matrix n m need \<Longrightarrow> i < n \<Longrightarrow> length work = m
   \<Longrightarrow> all_need_le need work i [0..<m] = Inr (grantable m need work i)"
  unfolding grantable_def
  by (rule all_need_le_list) (auto simp: matrix_def list_all_length)

lemma iadd_matrix_row:
  "matrix n m a \<Longrightarrow> i < n \<Longrightarrow> length work = m \<Longrightarrow> iadd work (a ! i) = Inr (add_row work (a ! i))"
  by (simp add: iadd_def add_row_def matrix_row)

lemma length_add_row: "length row = length work \<Longrightarrow> length (add_row work row) = length work"
  by (simp add: add_row_def)

lemma for_processes_Cons:
  assumes "matrix n m a" "matrix n m need" "i < n" "length work = m"
  shows "for_processes ps m a need (i # is) (work, finish, sq, al) =
     (if finish ! i \<or> \<not> grantable m need work i
      then for_processes ps m a need is (work, finish, sq, al)
      else for_processes ps m a need is (add_row work (a ! i), finish[i := True], sq @ [ps ! i], True))"
  using assms
  by (simp add: all_need_le_grantable iadd_matrix_row get_row_def matrix_length)

lemma for_processes_invariant:
  assumes a: "matrix n m a" and need: "matrix n m need"
    and "is": "list_all (\<lambda>i. i < n) is"
    and P0: "P (work, finish, sq, al)" and w: "length work = m"
    and step: "\<And>i work finish sq al.
        \<lbrakk>P (work, finish, sq, al); length work = m; i < n; \<not> finish ! i; grantable m need work i\<rbrakk>
        \<Longrightarrow> P (add_row work (a ! i), finish[i := True], sq @ [ps ! i], True)"
  shows "\<exists>work' finish' sq' al'.
           for_processes ps m a need is (work, finish, sq, al) = Inr (work', finish', sq', al')
           \<and> P (work', finish', sq', al') \<and> length work' = m"
  using "is" P0 w
proof (induction "is" arbitrary: work finish sq al)
  case Nil
  then show ?case by simp
next
  case (Cons i "is")
  from Cons.prems have i: "i < n" and rest: "list_all (\<lambda>i. i < n) is" by simp_all
  show ?case
  proof (cases "finish ! i \<or> \<not> grantable m need work i")
    case True
    with Cons.IH [OF rest Cons.prems(2) Cons.prems(3)]
    show ?thesis by (simp only: for_processes_Cons [OF a need i Cons.prems(3)] if_True)
  next
    case False
    then have nf: "\<not> finish ! i" and g: "grantable m need work i" by simp_all
    have P': "P (add_row work (a ! i), finish[i := True], sq @ [ps ! i], True)"
      using Cons.prems(2) Cons.prems(3) i nf g by (rule step)
    have l': "length (add_row work (a ! i)) = m"
      using a i Cons.prems(3) by (simp add: length_add_row matrix_row)
    from Cons.IH [OF rest P' l'] False
    show ?thesis by (simp only: for_processes_Cons [OF a need i Cons.prems(3)] if_False)
  qed
qed

lemma for_processes_flag:
  "for_processes ps m a need is (work, finish, sq, True) = Inr (work', finish', sq', al') \<Longrightarrow> al'"
proof (induction "is" arbitrary: work finish sq)
  case Nil
  then show ?case by simp
next
  case (Cons i "is")
  from Cons.prems consider
    (skip) "for_processes ps m a need is (work, finish, sq, True) = Inr (work', finish', sq', al')"
    | (grant) w where "for_processes ps m a need is (w, finish[i := True], sq @ [ps ! i], True)
                       = Inr (work', finish', sq', al')"
    by (auto split: if_splits sum.splits bool.splits)
  then show ?case by cases (auto dest: Cons.IH)
qed

lemma for_processes_no_grant:
  assumes a: "matrix n m a" and need: "matrix n m need"
    and "is": "list_all (\<lambda>i. i < n) is" and w: "length work = m"
    and run: "for_processes ps m a need is (work, finish, sq, False) = Inr (work', finish', sq', False)"
  shows "work' = work \<and> finish' = finish \<and> sq' = sq
         \<and> list_all (\<lambda>i. finish ! i \<or> \<not> grantable m need work i) is"
  using "is" run
proof (induction "is")
  case Nil
  then show ?case by simp
next
  case (Cons i "is")
  from Cons.prems have i: "i < n" and rest: "list_all (\<lambda>i. i < n) is" by simp_all
  show ?case
  proof (cases "finish ! i \<or> \<not> grantable m need work i")
    case True
    with Cons.prems(2)
    have "for_processes ps m a need is (work, finish, sq, False) = Inr (work', finish', sq', False)"
      by (simp only: for_processes_Cons [OF a need i w] if_True)
    from Cons.IH [OF rest this] True show ?thesis by simp
  next
    case False
    with Cons.prems(2)
    have "for_processes ps m a need is (add_row work (a ! i), finish[i := True], sq @ [ps ! i], True)
          = Inr (work', finish', sq', False)"
      by (simp only: for_processes_Cons [OF a need i w] if_False)
    from for_processes_flag [OF this] show ?thesis by simp
  qed
qed

lemma safe_while_rule:
  assumes a: "matrix n m a" and need: "matrix n m need" and n: "length ps = n"
    and step: "\<And>i work finish sq.
        \<lbrakk>I (work, finish, sq); length work = m; i < n; \<not> finish ! i; grantable m need work i\<rbrakk>
        \<Longrightarrow> I (add_row work (a ! i), finish[i := True], sq @ [ps ! i])"
  shows "I (work, finish, sq) \<Longrightarrow> length work = m \<Longrightarrow>
         \<exists>work' finish' sq'. I (work', finish', sq') \<and> length work' = m \<and>
           (safe_while ps m a need (work, finish, sq) = Inr (True, sq') \<and> n \<le> length sq'
            \<or> safe_while ps m a need (work, finish, sq) = Inr (False, []) \<and> length sq' < n
              \<and> list_all (\<lambda>i. finish' ! i \<or> \<not> grantable m need work' i) [0..<n])"
proof (induction "n - length sq" arbitrary: work finish sq rule: less_induct)
  case less
  show ?case
  proof (cases "length sq < n")
    case False
    with n have "safe_while ps m a need (work, finish, sq) = Inr (True, sq)" by simp
    with False less.prems show ?thesis by auto
  next
    case True
    have all: "list_all (\<lambda>i. i < n) [0..<n]" by (simp add: list_all_iff)
    have "\<exists>work' finish' sq' al'.
            for_processes ps m a need [0..<n] (work, finish, sq, False) = Inr (work', finish', sq', al')
            \<and> I (work', finish', sq') \<and> length work' = m"
    proof -
      have "\<exists>work' finish' sq' al'.
            for_processes ps m a need [0..<n] (work, finish, sq, False) = Inr (work', finish', sq', al')
            \<and> (\<lambda>s. I (fst s, fst (snd s), fst (snd (snd s)))) (work', finish', sq', al')
            \<and> length work' = m"
        by (rule for_processes_invariant [OF a need all]) (use less.prems step in auto)
      then show ?thesis by simp
    qed
    then obtain work' finish' sq' al' where
      run: "for_processes ps m a need [0..<n] (work, finish, sq, False) = Inr (work', finish', sq', al')"
      and I': "I (work', finish', sq')" and w': "length work' = m"
      by blast
    show ?thesis
    proof (cases al')
      case False
      from run False have run': "for_processes ps m a need [0..<n] (work, finish, sq, False)
          = Inr (work', finish', sq', False)"
        by simp
      from for_processes_no_grant [OF a need all less.prems(2) run']
      have same: "work' = work" "finish' = finish" "sq' = sq"
        and stuck: "list_all (\<lambda>i. finish ! i \<or> \<not> grantable m need work i) [0..<n]"
        by simp_all
      from True n run False
      have "safe_while ps m a need (work, finish, sq) = Inr (False, [])" by simp
      with less.prems True stuck show ?thesis by blast
    next
      case al: True
      from for_processes_length [OF run] al have longer: "length sq < length sq'" by simp
      with True have dec: "n - length sq' < n - length sq" by simp
      from True n run al
      have unfold: "safe_while ps m a need (work, finish, sq) = safe_while ps m a need (work', finish', sq')"
        by simp
      from less.hyps [OF dec I' w'] show ?thesis unfolding unfold .
    qed
  qed
qed

declare safe_while.simps [simp del]

section \<open>What an accepted input is\<close>

text \<open>
  When \<open>validate_input\<close> returns \<open>True\<close>, the allocation matrix has a row for every process
  and an entry for every resource, the maximum-demand matrix has as many rows, every
  compared entry of the allocation is at most the maximum demand, and the first
  \<open>len(resources)\<close> entries of \<open>available\<close> are there and not negative.
\<close>

lemma str_nat_decimal: "str_nat 2024 = ''2024'' \<and> str_nat 0 = ''0'' \<and> str_int (- 17) = ''-17''"
  by code_simp

lemma np_array_Inr: "np_array a = Inr a' \<Longrightarrow> a' = a"
  by (auto simp: np_array_def split: list.splits if_splits)

lemma np_array_rect:
  "np_array a = Inr a' \<Longrightarrow> a \<noteq> [] \<Longrightarrow> matrix (length a) (length (a ! 0)) a"
  by (cases a) (auto simp: np_array_def matrix_def split: if_splits)

lemma check_allocation_None:
  "check_allocation ps rs a md prs = Inr None
   \<Longrightarrow> list_all (\<lambda>(i, j). i < length md \<and> j < length (md ! i) \<and> sint (a ! i ! j) \<le> sint (md ! i ! j)) prs"
  by (induction prs) (auto simp: get2_def split: if_splits sum.splits)

lemma all_available_ge0_True:
  "all_available_ge0 av js = Inr True \<Longrightarrow> list_all (\<lambda>j. j < length av \<and> 0 \<le> sint (av ! j)) js"
  by (induction js) (auto simp: get1_def split: if_splits sum.splits)

lemma validate_checks_accepted:
  assumes "validate_checks ps rs a md av = Inr (True, msg)"
  shows "a \<noteq> [] \<and> matrix (length ps) (length rs) a \<and> length md = length ps
         \<and> np_array md = Inr md
         \<and> list_all (\<lambda>(i, j). i < length md \<and> j < length (md ! i) \<and> sint (a ! i ! j) \<le> sint (md ! i ! j))
              (List.product [0..<length ps] [0..<length rs])
         \<and> list_all (\<lambda>j. j < length av \<and> 0 \<le> sint (av ! j)) [0..<length rs]
         \<and> msg = ''''"
proof -
  from assms obtain a' md' where a': "np_array a = Inr a'" and md': "np_array md = Inr md'"
    by (auto simp: validate_checks_def split: sum.splits)
  have aa: "a' = a" and mm: "md' = md" using a' md' by (auto dest: np_array_Inr)
  from assms a' md' aa mm have la: "length ps = length a"
    by (auto simp: validate_checks_def split: sum.splits if_splits)
  from assms a' md' aa mm la have a0: "a \<noteq> []"
    by (auto simp: validate_checks_def get_row_def split: sum.splits if_splits)
  from assms a' md' aa mm la a0 have lr: "length rs = length (a ! 0)" and lm: "length md = length a"
    by (auto simp: validate_checks_def get_row_def split: sum.splits if_splits)
  from assms a' md' aa mm la a0 lr lm
  have chk: "check_allocation ps rs a md (List.product [0..<length ps] [0..<length rs]) = Inr None"
    and avl: "all_available_ge0 av [0..<length rs] = Inr True" and msg: "msg = ''''"
    by (auto simp: validate_checks_def get_row_def split: sum.splits if_splits option.splits bool.splits)
  from np_array_rect [OF a' a0] la lr have "matrix (length ps) (length rs) a" by simp
  with a0 lm la md' mm check_allocation_None [OF chk] all_available_ge0_True [OF avl] msg
  show ?thesis by simp
qed

lemma validate_input_accepted:
  assumes "validate_input ps rs a md av = (True, msg)"
  shows "a \<noteq> [] \<and> matrix (length ps) (length rs) a \<and> length md = length ps
         \<and> np_array md = Inr md
         \<and> list_all (\<lambda>(i, j). i < length md \<and> j < length (md ! i) \<and> sint (a ! i ! j) \<le> sint (md ! i ! j))
              (List.product [0..<length ps] [0..<length rs])
         \<and> list_all (\<lambda>j. j < length av \<and> 0 \<le> sint (av ! j)) [0..<length rs]
         \<and> msg = Text ''''"
proof -
  from assms obtain t where "validate_checks ps rs a md av = Inr (True, t)" and "msg = Text t"
    by (auto simp: validate_input_def split: sum.splits prod.splits)
  with validate_checks_accepted [of ps rs a md av t] show ?thesis by blast
qed

lemma finished_subset: "finished n finish \<subseteq> {0..<n}"
  by (auto simp: finished_def)

lemma finite_finished: "finite (finished n finish)"
  by (rule finite_subset [OF finished_subset]) simp

lemma finished_update:
  "length finish = n \<Longrightarrow> i < n \<Longrightarrow> finished n (finish[i := True]) = insert i (finished n finish)"
  by (auto simp: finished_def nth_list_update)

lemma finished_replicate: "finished n (replicate n False) = {}"
  by (auto simp: finished_def)

lemma finished_full: "card (finished n finish) \<ge> n \<Longrightarrow> finished n finish = {0..<n}"
  by (rule card_subset_eq [OF _ finished_subset]) (use card_mono [OF _ finished_subset, of n finish] in auto)

lemma mset_nth_upt: "image_mset ((!) ps) (mset_set {0..<length ps}) = mset ps"
proof -
  have "mset ps = mset (map ((!) ps) [0..<length ps])" by (simp add: map_nth)
  also have "\<dots> = image_mset ((!) ps) (mset [0..<length ps])" by simp
  finally show ?thesis by (simp add: mset_upt)
qed

lemma safe_while_sequence:
  assumes a: "matrix n m a" and need: "matrix n m need" and n: "length ps = n" and w: "length av = m"
  shows "\<exists>safe sq. safe_while ps m a need (av, replicate n False, []) = Inr (safe, sq)
           \<and> (safe \<longrightarrow> mset sq = mset ps) \<and> (\<not> safe \<longrightarrow> sq = [])"
proof -
  let ?I = "\<lambda>(work, finish, sq). length finish = n
              \<and> mset sq = image_mset ((!) ps) (mset_set (finished n finish))"
  have "\<exists>work' finish' sq'. ?I (work', finish', sq') \<and> length work' = m \<and>
           (safe_while ps m a need (av, replicate n False, []) = Inr (True, sq') \<and> n \<le> length sq'
            \<or> safe_while ps m a need (av, replicate n False, []) = Inr (False, []) \<and> length sq' < n
              \<and> list_all (\<lambda>i. finish' ! i \<or> \<not> grantable m need work' i) [0..<n])"
  proof (rule safe_while_rule [OF a need n _ _ w])
    show "?I (av, replicate n False, [])" by (simp add: finished_replicate)
  next
    fix i and work :: "int64 list" and finish :: "bool list" and sq :: "string list"
    assume "?I (work, finish, sq)" "i < n" "\<not> finish ! i"
    then have len: "length finish = n"
      and sq: "mset sq = image_mset ((!) ps) (mset_set (finished n finish))"
      and i: "i < n" and nf: "i \<notin> finished n finish"
      by (simp_all add: finished_def)
    from len i have "finished n (finish[i := True]) = insert i (finished n finish)"
      by (rule finished_update)
    with nf sq len show "?I (add_row work (a ! i), finish[i := True], sq @ [ps ! i])"
      by (simp add: finite_finished)
  qed
  then obtain work' finish' sq' where I: "?I (work', finish', sq')"
    and res: "safe_while ps m a need (av, replicate n False, []) = Inr (True, sq') \<and> n \<le> length sq'
            \<or> safe_while ps m a need (av, replicate n False, []) = Inr (False, [])"
    by blast
  from res show ?thesis
  proof
    assume t: "safe_while ps m a need (av, replicate n False, []) = Inr (True, sq') \<and> n \<le> length sq'"
    from I have "size (mset sq') = card (finished n finish')" by simp
    with t have "n \<le> card (finished n finish')" by simp
    then have "finished n finish' = {0..<n}" by (rule finished_full)
    with I mset_nth_upt [of ps] n have "mset sq' = mset ps" by simp
    with t show ?thesis by auto
  next
    assume "safe_while ps m a need (av, replicate n False, []) = Inr (False, [])"
    then show ?thesis by auto
  qed
qed

section \<open>Processes that can finish\<close>

text \<open>
  When the allocations are not negative and the sums stay within 64 bits, \<open>work\<close> in the
  loop is the available vector plus the allocations of the finished processes, and
  \<open>is_safe_state\<close> answers \<open>True\<close> exactly when all processes can finish (\<open>can_finish\<close>).
\<close>

lemma sint_add_in_range:
  fixes x y :: int64
  assumes "- (2 ^ 63) \<le> sint x + sint y" and "sint x + sint y < 2 ^ 63"
  shows "sint (x + y) = sint x + sint y"
  using assms by (simp add: sint_word_ariths signed_take_bit_int_eq_self)

lemma sint_int64_ge: "- (2 ^ 63) \<le> sint (x :: int64)"
  using sint_ge [of x] by simp

lemma can_finish_subset: "can_finish n m a need av F \<Longrightarrow> F \<subseteq> {0..<n}"
  by (induction rule: can_finish.induct) auto

lemma can_finish_mono:
  assumes "can_finish n m a need av F"
    and le: "list_all (\<lambda>j. sint (av ! j) \<le> sint (av' ! j)) [0..<m]"
  shows "can_finish n m a need av' F"
  using assms(1)
proof (induction rule: can_finish.induct)
  case none
  show ?case by (rule can_finish.none)
next
  case (grant F i)
  from grant.hyps(4) le
  have "list_all (\<lambda>j. sint (need ! i ! j) \<le> sint (av' ! j) + (\<Sum>k\<in>F. sint (a ! k ! j))) [0..<m]"
    by (fastforce simp: list_all_iff)
  with grant.IH grant.hyps(2,3) show ?case by (rule can_finish.grant)
qed

lemma can_finish_stuck:
  assumes nonneg: "\<And>k j. k < n \<Longrightarrow> j < m \<Longrightarrow> 0 \<le> sint (a ! k ! j)"
    and F: "F \<subseteq> {0..<n}"
    and stuck: "\<And>i. i < n \<Longrightarrow> i \<notin> F
                \<Longrightarrow> \<not> list_all (\<lambda>j. sint (need ! i ! j)
                                    \<le> sint (av ! j) + (\<Sum>k\<in>F. sint (a ! k ! j))) [0..<m]"
    and G: "can_finish n m a need av G"
  shows "G \<subseteq> F"
  using G
proof (induction rule: can_finish.induct)
  case none
  show ?case by simp
next
  case (grant G i)
  have fin: "finite F" using F by (rule finite_subset) simp
  have "list_all (\<lambda>j. sint (need ! i ! j) \<le> sint (av ! j) + (\<Sum>k\<in>F. sint (a ! k ! j))) [0..<m]"
    unfolding list_all_iff
  proof
    fix j assume "j \<in> set [0..<m]"
    then have j: "j < m" by simp
    have "(\<Sum>k\<in>G. sint (a ! k ! j)) \<le> (\<Sum>k\<in>F. sint (a ! k ! j))"
      using fin grant.IH
    proof (rule sum_mono2)
      fix b assume "b \<in> F - G"
      with F have "b < n" by auto
      then show "0 \<le> sint (a ! b ! j)" using j by (rule nonneg)
    qed
    moreover from grant.hyps(4) j
    have "sint (need ! i ! j) \<le> sint (av ! j) + (\<Sum>k\<in>G. sint (a ! k ! j))"
      by (simp add: list_all_iff)
    ultimately show "sint (need ! i ! j) \<le> sint (av ! j) + (\<Sum>k\<in>F. sint (a ! k ! j))" by simp
  qed
  with stuck [OF grant.hyps(2)] have "i \<in> F" by blast
  with grant.IH show ?case by simp
qed

lemma add_row_nth:
  "j < length work \<Longrightarrow> length row = length work
   \<Longrightarrow> add_row work row ! j = work ! j + row ! j"
  by (simp add: add_row_def)

lemma safe_while_can_finish:
  assumes a: "matrix n m a" and need: "matrix n m need" and n: "length ps = n"
    and w: "length av = m"
    and nonneg: "\<And>k j. k < n \<Longrightarrow> j < m \<Longrightarrow> 0 \<le> sint (a ! k ! j)"
    and hi: "\<And>j. j < m \<Longrightarrow> sint (av ! j) + (\<Sum>k\<in>{0..<n}. sint (a ! k ! j)) < 2 ^ 63"
  shows "\<exists>sq. safe_while ps m a need (av, replicate n False, [])
              = Inr (can_finish n m a need av {0..<n}, sq)"
proof -
  let ?I = "\<lambda>(work, finish, sq). length finish = n
              \<and> can_finish n m a need av (finished n finish)
              \<and> (\<forall>j<m. sint (work ! j) = sint (av ! j) + (\<Sum>k\<in>finished n finish. sint (a ! k ! j)))
              \<and> length sq = card (finished n finish)"
  have "\<exists>work' finish' sq'. ?I (work', finish', sq') \<and> length work' = m \<and>
           (safe_while ps m a need (av, replicate n False, []) = Inr (True, sq') \<and> n \<le> length sq'
            \<or> safe_while ps m a need (av, replicate n False, []) = Inr (False, []) \<and> length sq' < n
              \<and> list_all (\<lambda>i. finish' ! i \<or> \<not> grantable m need work' i) [0..<n])"
  proof (rule safe_while_rule [OF a need n _ _ w])
    show "?I (av, replicate n False, [])"
      by (simp add: finished_replicate can_finish.none)
  next
    fix i and work :: "int64 list" and finish :: "bool list" and sq :: "string list"
    assume I: "?I (work, finish, sq)" and lw: "length work = m" and i: "i < n"
      and nf: "\<not> finish ! i" and g: "grantable m need work i"
    let ?F = "finished n finish"
    from I have len: "length finish = n" and cf: "can_finish n m a need av ?F"
      and cl: "\<And>j. j < m \<Longrightarrow> sint (work ! j) = sint (av ! j) + (\<Sum>k\<in>?F. sint (a ! k ! j))"
      and ls: "length sq = card ?F"
      by simp_all
    from nf i have notin: "i \<notin> ?F" by (simp add: finished_def)
    from len i have upd: "finished n (finish[i := True]) = insert i ?F" by (rule finished_update)
    from g cl
    have "list_all (\<lambda>j. sint (need ! i ! j) \<le> sint (av ! j) + (\<Sum>k\<in>?F. sint (a ! k ! j))) [0..<m]"
      by (simp add: grantable_def list_all_iff)
    with cf i notin have cf': "can_finish n m a need av (insert i ?F)" by (rule can_finish.grant)
    have row: "length (a ! i) = m" using a i by (rule matrix_row)
    have cl': "sint (add_row work (a ! i) ! j) = sint (av ! j) + (\<Sum>k\<in>insert i ?F. sint (a ! k ! j))"
      if j: "j < m" for j
    proof -
      have sub: "insert i ?F \<subseteq> {0..<n}" using i finished_subset [of n finish] by simp
      have "(\<Sum>k\<in>insert i ?F. sint (a ! k ! j)) \<le> (\<Sum>k\<in>{0..<n}. sint (a ! k ! j))"
        using _ sub
      proof (rule sum_mono2)
        show "finite {0..<n}" by simp
      next
        fix b assume "b \<in> {0..<n} - insert i ?F"
        then have "b < n" by simp
        then show "0 \<le> sint (a ! b ! j)" using j by (rule nonneg)
      qed
      with hi [OF j] have up: "sint (av ! j) + (\<Sum>k\<in>insert i ?F. sint (a ! k ! j)) < 2 ^ 63"
        by simp
      have "0 \<le> (\<Sum>k\<in>insert i ?F. sint (a ! k ! j))"
      proof (rule sum_nonneg)
        fix k assume "k \<in> insert i ?F"
        with sub have "k < n" by auto
        then show "0 \<le> sint (a ! k ! j)" using j by (rule nonneg)
      qed
      with sint_int64_ge [of "av ! j"]
      have down: "- (2 ^ 63) \<le> sint (av ! j) + (\<Sum>k\<in>insert i ?F. sint (a ! k ! j))" by simp
      have eq: "sint (work ! j) + sint (a ! i ! j)
                = sint (av ! j) + (\<Sum>k\<in>insert i ?F. sint (a ! k ! j))"
        using notin cl [OF j] by (simp add: finite_finished)
      have "add_row work (a ! i) ! j = work ! j + a ! i ! j"
        using j lw row by (simp add: add_row_nth)
      moreover have "sint (work ! j + a ! i ! j) = sint (work ! j) + sint (a ! i ! j)"
        using up down unfolding eq [symmetric] by (intro sint_add_in_range)
      ultimately show ?thesis using eq by simp
    qed
    from notin ls have "length (sq @ [ps ! i]) = card (insert i ?F)"
      by (simp add: finite_finished)
    with len cf' cl' upd show "?I (add_row work (a ! i), finish[i := True], sq @ [ps ! i])"
      by simp
  qed
  then obtain work' finish' sq' where I': "?I (work', finish', sq')"
    and res: "safe_while ps m a need (av, replicate n False, []) = Inr (True, sq') \<and> n \<le> length sq'
            \<or> safe_while ps m a need (av, replicate n False, []) = Inr (False, []) \<and> length sq' < n
              \<and> list_all (\<lambda>i. finish' ! i \<or> \<not> grantable m need work' i) [0..<n]"
    by blast
  from I' have len: "length finish' = n"
    and cf: "can_finish n m a need av (finished n finish')"
    and cl: "\<And>j. j < m \<Longrightarrow> sint (work' ! j)
                 = sint (av ! j) + (\<Sum>k\<in>finished n finish'. sint (a ! k ! j))"
    and ls: "length sq' = card (finished n finish')"
    by simp_all
  let ?F = "finished n finish'"
  from res show ?thesis
  proof
    assume t: "safe_while ps m a need (av, replicate n False, []) = Inr (True, sq') \<and> n \<le> length sq'"
    with ls have "n \<le> card ?F" by simp
    then have "?F = {0..<n}" by (rule finished_full)
    with cf t show ?thesis by auto
  next
    assume f: "safe_while ps m a need (av, replicate n False, []) = Inr (False, []) \<and> length sq' < n
              \<and> list_all (\<lambda>i. finish' ! i \<or> \<not> grantable m need work' i) [0..<n]"
    have "\<not> can_finish n m a need av {0..<n}"
    proof
      assume full: "can_finish n m a need av {0..<n}"
      have "{0..<n} \<subseteq> ?F"
        using nonneg finished_subset _ full
      proof (rule can_finish_stuck)
        fix i assume i: "i < n" and "i \<notin> ?F"
        then have "\<not> finish' ! i" by (simp add: finished_def)
        with f i have "\<not> grantable m need work' i" by (auto simp: list_all_iff)
        with cl show "\<not> list_all (\<lambda>j. sint (need ! i ! j)
                          \<le> sint (av ! j) + (\<Sum>k\<in>?F. sint (a ! k ! j))) [0..<m]"
          by (simp add: grantable_def list_all_iff)
      qed
      then have "card {0..<n} \<le> card ?F" by (intro card_mono finite_finished)
      with ls f show False by simp
    qed
    with f show ?thesis by auto
  qed
qed

lemma sum_list_column:
  "(\<Sum>row\<leftarrow>a. sint (row ! j :: int64)) = (\<Sum>k\<in>{0..<length a}. sint (a ! k ! j))"
proof -
  have "(\<Sum>row\<leftarrow>a. sint (row ! j)) = (\<Sum>k = 0..<length a. map (\<lambda>row. sint (row ! j)) a ! k)"
    by (simp add: sum_list_sum_nth)
  also have "\<dots> = (\<Sum>k\<in>{0..<length a}. sint (a ! k ! j))"
    by (rule sum.cong) simp_all
  finally show ?thesis .
qed

lemma is_safe_state_matrix:
  assumes a: "matrix (length ps) (length rs) a" and md: "matrix (length ps) (length rs) md"
  shows "is_safe_state ps rs a md av
         = safe_while ps (length rs) a
             (map (\<lambda>i. map (\<lambda>j. md ! i ! j - a ! i ! j) [0..<length rs]) [0..<length ps])
             (av, replicate (length ps) False, [])"
  by (simp add: is_safe_state_def np_array_matrix [OF a] np_array_matrix [OF md]
      np_sub_matrix [OF md a])

section \<open>The first check of the detector\<close>

text \<open>
  The first check of \<open>detect_deadlock\<close> returns before the graph is built when nothing is
  available and every process has a need.
\<close>

lemma all_processes_need_True:
  "list_all (\<lambda>i. i < length need \<and> \<not> list_all (\<lambda>x. x = 0) (need ! i)) is
   \<Longrightarrow> all_processes_need need is = Inr True"
  by (induction "is") (auto simp: get_row_def)

lemma detect_deadlock_fast_path:
  assumes a: "matrix (length processes) m allocation" and md: "matrix (length processes) m max_demand"
    and zero: "list_all (\<lambda>x. x = 0) available"
    and need: "list_all (\<lambda>i. \<not> list_all (\<lambda>j. max_demand ! i ! j - allocation ! i ! j = 0) [0..<m])
                 [0..<length processes]"
  shows "detect_deadlock find_cycle processes resources allocation max_demand available
         = Inr (True, map (\<lambda>p. Edge2 p ''Resources'') processes)"
proof -
  let ?n = "length processes"
  let ?need = "map (\<lambda>i. map (\<lambda>j. max_demand ! i ! j - allocation ! i ! j) [0..<m]) [0..<?n]"
  have "i < length ?need \<and> \<not> list_all (\<lambda>x. x = 0) (?need ! i)" if i: "i < ?n" for i
  proof -
    from need i have "\<not> list_all (\<lambda>j. max_demand ! i ! j - allocation ! i ! j = 0) [0..<m]"
      by (simp add: list_all_iff)
    with i show ?thesis
      by (auto simp: list_all_iff)
  qed
  then have "list_all (\<lambda>i. i < length ?need \<and> \<not> list_all (\<lambda>x. x = 0) (?need ! i)) [0..<?n]"
    by (simp add: list_all_iff)
  then have "all_processes_need ?need [0..<?n] = Inr True" by (rule all_processes_need_True)
  with zero show ?thesis
    by (simp add: detect_deadlock_def np_array_matrix [OF a] np_array_matrix [OF md]
        np_sub_matrix [OF md a])
qed

section \<open>Column sums\<close>

text \<open>
  When the allocations are not negative and the totals fit in 64 bits,
  \<^verbatim>\<open>np.sum(allocation, axis=0)\<close> is the list of the sums of the columns.
\<close>

lemma foldl_add_row:
  fixes acc :: "int64 list"
  assumes "length acc = m" and "list_all (\<lambda>r. length r = m) rows"
    and "list_all (list_all (\<lambda>x. 0 \<le> sint x)) rows"
    and "\<And>j. j < m \<Longrightarrow> 0 \<le> sint (acc ! j)"
    and "\<And>j. j < m \<Longrightarrow> sint (acc ! j) + (\<Sum>row\<leftarrow>rows. sint (row ! j)) < 2 ^ 63"
  shows "length (foldl (\<lambda>acc row. map2 (\<lambda>x y. x + y) acc row) acc rows) = m
         \<and> (\<forall>j<m. sint (foldl (\<lambda>acc row. map2 (\<lambda>x y. x + y) acc row) acc rows ! j)
                    = sint (acc ! j) + (\<Sum>row\<leftarrow>rows. sint (row ! j)))"
  using assms
proof (induction rows arbitrary: acc)
  case Nil
  then show ?case by simp
next
  case (Cons r rows)
  let ?acc = "map2 (\<lambda>x y. x + y) acc r"
  from Cons.prems have lr: "length r = m" and rest: "list_all (\<lambda>r. length r = m) rows"
    and nr: "list_all (\<lambda>x. 0 \<le> sint x) r"
    and nrest: "list_all (list_all (\<lambda>x. 0 \<le> sint x)) rows"
    by simp_all
  have rest_nonneg: "0 \<le> (\<Sum>row\<leftarrow>rows. sint (row ! j))" if "j < m" for j
  proof (rule sum_list_nonneg)
    fix x assume "x \<in> set (map (\<lambda>row. sint (row ! j)) rows)"
    then obtain row where "row \<in> set rows" "x = sint (row ! j)" by auto
    with nrest rest that show "0 \<le> x" by (auto simp: list_all_iff)
  qed
  have rj: "0 \<le> sint (r ! j)" if "j < m" for j
    using nr lr that by (simp add: list_all_length)
  have step: "sint (?acc ! j) = sint (acc ! j) + sint (r ! j)" if j: "j < m" for j
  proof -
    from Cons.prems(5) [OF j] rest_nonneg [OF j] have "sint (acc ! j) + sint (r ! j) < 2 ^ 63"
      by simp
    moreover from Cons.prems(4) [OF j] rj [OF j] have "- (2 ^ 63) \<le> sint (acc ! j) + sint (r ! j)"
      by simp
    ultimately have "sint (acc ! j + r ! j) = sint (acc ! j) + sint (r ! j)"
      by (intro sint_add_in_range)
    with j lr Cons.prems(1) show ?thesis by simp
  qed
  have len: "length ?acc = m" using lr Cons.prems(1) by simp
  have nonneg': "0 \<le> sint (?acc ! j)" if "j < m" for j
    using step [OF that] Cons.prems(4) [OF that] rj [OF that] by simp
  have bound': "sint (?acc ! j) + (\<Sum>row\<leftarrow>rows. sint (row ! j)) < 2 ^ 63" if "j < m" for j
    using step [OF that] Cons.prems(5) [OF that] by simp
  from Cons.IH [OF len rest nrest nonneg' bound'] step show ?case by simp
qed

lemma np_sum_axis0_column:
  assumes a: "matrix n m a" and a0: "a \<noteq> []"
    and nonneg: "list_all (list_all (\<lambda>x. 0 \<le> sint x)) a"
    and fits: "\<And>j. j < m \<Longrightarrow> (\<Sum>row\<leftarrow>a. sint (row ! j)) < 2 ^ 63"
  shows "length (np_sum_axis0 a) = m
         \<and> (\<forall>j<m. sint (np_sum_axis0 a ! j) = (\<Sum>row\<leftarrow>a. sint (row ! j)))"
proof -
  from a0 obtain r rs where ars: "a = r # rs" by (cases a) auto
  with a nonneg have lr: "length r = m" and rest: "list_all (\<lambda>r. length r = m) rs"
    and nr: "list_all (\<lambda>x. 0 \<le> sint x) r"
    and nrest: "list_all (list_all (\<lambda>x. 0 \<le> sint x)) rs"
    by (simp_all add: matrix_def)
  have rj: "0 \<le> sint (r ! j)" if "j < m" for j
    using nr lr that by (simp add: list_all_length)
  have b: "sint (r ! j) + (\<Sum>row\<leftarrow>rs. sint (row ! j)) < 2 ^ 63" if "j < m" for j
    using fits [OF that] ars by simp
  from foldl_add_row [OF lr rest nrest rj b] ars show ?thesis
    by (simp add: np_sum_axis0_def)
qed

lemma sum_list_zero_iff:
  "list_all (\<lambda>x. (0 :: int) \<le> x) xs \<Longrightarrow> sum_list xs = 0 \<longleftrightarrow> list_all (\<lambda>x. x = 0) xs"
  by (induction xs) (auto simp: add_nonneg_eq_0_iff sum_list_nonneg list_all_iff)

lemma sint_int64_zero: "sint (x :: int64) = 0 \<longleftrightarrow> x = 0"
  by (simp add: signed_eq_0_iff)

section \<open>The textbook example\<close>

text \<open>
  Claim C6. On the classical example (five processes, three resource types, available
  \<open>[3, 3, 2]\<close>, the standard allocation and maximum-demand matrices) \<open>is_safe_state\<close> returns
  \<open>True\<close> with the completion order P1, P3, P4, P0, P2: every process that can be granted
  in a pass is granted in that pass, in index order.
\<close>

theorem textbook_example_safe:
  "is_safe_state [''P0'', ''P1'', ''P2'', ''P3'', ''P4''] [''A'', ''B'', ''C'']
     [[0, 1, 0], [2, 0, 0], [3, 0, 2], [2, 1, 1], [0, 0, 2]]
     [[7, 5, 3], [3, 2, 2], [9, 0, 2], [2, 2, 2], [4, 3, 3]]
     [3, 3, 2]
   = Inr (True, [''P1'', ''P3'', ''P4'', ''P0'', ''P2''])"
  by code_simp

section \<open>No processes and no resources\<close>

text \<open>
  Claim C2, as amended. With no process and no resource, \<open>is_safe_state\<close> returns
  \<open>(True, [])\<close>, and \<open>detect_deadlock\<close>, called on that input, returns \<open>True\<close> with an empty
  cycle, whatever \<open>find_cycle\<close> is: \<^verbatim>\<open>np.all(available == 0)\<close> holds of the empty vector, the
  loop over the processes finds no process without need, and the first check returns the
  pairs of no process. \<open>validate_input\<close> rejects the input, since \<^verbatim>\<open>allocation[0]\<close> raises
  on the empty array, so a validated request never brings it to the engines.
\<close>

theorem zero_processes_zero_resources:
  "is_safe_state [] [] [] [] [] = Inr (True, [])
   \<and> detect_deadlock find_cycle [] [] [] [] [] = Inr (True, [])
   \<and> validate_input [] [] [] [] [] = (False, Invalid_input_format IndexError)"
  by (simp add: is_safe_state_def detect_deadlock_def np_array_def np_sub_def safe_while.simps
      validate_input_def validate_checks_def get_row_def)

text \<open>
  The claim as stated fails: on the empty input \<open>detect_deadlock\<close> does not return \<open>False\<close>.
\<close>

theorem zero_processes_counterexample:
  "detect_deadlock (\<lambda>g. None) [] [] [] [] [] = Inr (True, [])
   \<and> detect_deadlock (\<lambda>g. None) [] [] [] [] [] \<noteq> Inr (False, [])"
  by (simp add: detect_deadlock_def np_array_def np_sub_def)

section \<open>The columns of the maximum-demand matrix\<close>

text \<open>
  Claim C8. \<open>validate_input\<close> never compares the number of columns of the maximum-demand
  matrix with the number of resources. The input below has one process, two resources, a
  1 x 2 allocation matrix and a rectangular 1 x 3 maximum-demand matrix; every check passes
  and the result is \<open>(True, "")\<close>, although \<open>max_demand - allocation\<close> raises on the shapes
  (1, 3) and (1, 2), in \<open>is_safe_state\<close> and in \<open>detect_deadlock\<close>.
\<close>

theorem max_demand_columns_unchecked:
  "validate_input [''P0''] [''A'', ''B''] [[1, 0]] [[1, 0, 5]] [0, 0] = (True, Text '''')
   \<and> np_array [[1, 0, 5]] = Inr [[1, 0, 5]]
   \<and> length [[1, 0, 5 :: int64]] = length [''P0'']
   \<and> length ([[1, 0, 5 :: int64]] ! 0) \<noteq> length [''A'', ''B'']
   \<and> np_sub [[1, 0, 5]] [[1, 0]] = Inl NumpyError
   \<and> is_safe_state [''P0''] [''A'', ''B''] [[1, 0]] [[1, 0, 5]] [0, 0] = Inl NumpyError
   \<and> detect_deadlock find_cycle [''P0''] [''A'', ''B''] [[1, 0]] [[1, 0, 5]] [0, 0]
       = Inl NumpyError"
  by (simp add: validate_input_def validate_checks_def np_array_def get_row_def get2_def get1_def
      np_sub_def shape2_def bdim_def is_safe_state_def detect_deadlock_def)

section \<open>The safe sequence\<close>

text \<open>
  Claim C1, as amended. On an input of 64-bit integers that \<open>validate_input\<close> accepts and
  whose maximum-demand matrix and available vector have exactly one entry for every
  resource (the two shapes \<open>validate_input\<close> does not check), \<open>is_safe_state\<close> returns; the
  sequence it returns is not empty exactly when it returns \<open>True\<close>; with \<open>True\<close> the sequence
  is a permutation of the process identifiers, and with \<open>False\<close> it is empty.
\<close>

theorem safe_sequence_permutation:
  assumes valid: "validate_input processes resources allocation max_demand available = (True, Text '''')"
    and md: "list_all (\<lambda>row. length row = length resources) max_demand"
    and av: "length available = length resources"
  shows "\<exists>safe sq. is_safe_state processes resources allocation max_demand available = Inr (safe, sq)
           \<and> (sq \<noteq> [] \<longleftrightarrow> safe) \<and> (safe \<longrightarrow> mset sq = mset processes) \<and> (\<not> safe \<longrightarrow> sq = [])"
proof -
  let ?n = "length processes" and ?m = "length resources"
  from validate_input_accepted [OF valid]
  have a0: "allocation \<noteq> []" and a: "matrix ?n ?m allocation" and lm: "length max_demand = ?n"
    by simp_all
  from lm md have m: "matrix ?n ?m max_demand" by (simp add: matrix_def)
  from a a0 have ps: "processes \<noteq> []" by (auto simp: matrix_def)
  let ?need = "map (\<lambda>i. map (\<lambda>j. max_demand ! i ! j - allocation ! i ! j) [0..<?m]) [0..<?n]"
  have run: "is_safe_state processes resources allocation max_demand available
          = safe_while processes ?m allocation ?need (available, replicate ?n False, [])"
    by (rule is_safe_state_matrix [OF a m])
  have "matrix ?n ?m ?need" by (rule need_matrix)
  from safe_while_sequence [OF a this refl av]
  obtain safe sq where
    "safe_while processes ?m allocation ?need (available, replicate ?n False, []) = Inr (safe, sq)"
    "safe \<longrightarrow> mset sq = mset processes" "\<not> safe \<longrightarrow> sq = []"
    by blast
  with run ps show ?thesis by auto
qed

theorem safe_sequence_permutation_witness:
  "validate_input [''P0'', ''P1''] [''A''] [[1], [0]] [[1], [5]] [5] = (True, Text '''')
   \<and> list_all (\<lambda>row. length row = length [''A'']) [[1], [5 :: int64]]
   \<and> length [5 :: int64] = length [''A'']
   \<and> (\<exists>safe sq. is_safe_state [''P0'', ''P1''] [''A''] [[1], [0]] [[1], [5]] [5] = Inr (safe, sq)
           \<and> (sq \<noteq> [] \<longleftrightarrow> safe) \<and> (safe \<longrightarrow> mset sq = mset [''P0'', ''P1''])
           \<and> (\<not> safe \<longrightarrow> sq = []))"
proof -
  have v: "validate_input [''P0'', ''P1''] [''A''] [[1], [0]] [[1], [5]] [5] = (True, Text '''')"
    by code_simp
  have md: "list_all (\<lambda>row. length row = length [''A'']) [[1], [5 :: int64]]"
    by simp
  have av: "length [5 :: int64] = length [''A'']"
    by simp
  from safe_sequence_permutation [OF v md av] v md av show ?thesis
    by blast
qed

text \<open>
  The claim as stated, for every validated input, fails. The first input below is accepted
  by \<open>validate_input\<close> and has three available entries for two resources: the process is
  granted and \<^verbatim>\<open>work += allocation[0]\<close> raises on the shapes (3,) and (2,). The second is
  accepted and has three columns of maximum demand for two resources:
  \<^verbatim>\<open>max_demand - allocation\<close> raises.
\<close>

theorem safe_sequence_counterexample:
  "validate_input [''P0''] [''A'', ''B''] [[1, 0]] [[1, 0]] [0, 0, 0] = (True, Text '''')
   \<and> is_safe_state [''P0''] [''A'', ''B''] [[1, 0]] [[1, 0]] [0, 0, 0] = Inl NumpyError
   \<and> validate_input [''P0''] [''A'', ''B''] [[2, 1]] [[2, 1, 0]] [1, 1] = (True, Text '''')
   \<and> is_safe_state [''P0''] [''A'', ''B''] [[2, 1]] [[2, 1, 0]] [1, 1] = Inl NumpyError"
  by code_simp

section \<open>More available units\<close>

text \<open>
  Claim C5, as amended. On a valid input (64-bit integers, accepted by \<open>validate_input\<close>,
  with one entry for every resource in each row of the maximum-demand matrix and in the
  available vector) whose allocations are not negative, if \<open>is_safe_state\<close> returns \<open>True\<close>
  then it returns \<open>True\<close> after \<open>available[j]\<close> is increased to any larger value \<open>v\<close>, provided
  that for every resource the increased available units plus the total allocation stay
  below \<open>2^63\<close>, the range of the 64-bit integers the arrays hold.
\<close>

theorem safety_monotone:
  assumes valid: "validate_input processes resources allocation max_demand available = (True, Text '''')"
    and md: "list_all (\<lambda>row. length row = length resources) max_demand"
    and av: "length available = length resources"
    and nonneg: "list_all (list_all (\<lambda>x. 0 \<le> sint x)) allocation"
    and j: "j < length resources" and up: "sint (available ! j) \<le> sint v"
    and fits: "list_all (\<lambda>k. sint (available[j := v] ! k) + (\<Sum>row\<leftarrow>allocation. sint (row ! k)) < 2 ^ 63)
                 [0..<length resources]"
    and safe: "is_safe_state processes resources allocation max_demand available = Inr (True, sq)"
  shows "\<exists>sq'. is_safe_state processes resources allocation max_demand (available[j := v])
               = Inr (True, sq')"
proof -
  let ?n = "length processes" and ?m = "length resources"
  let ?av' = "available[j := v]"
  let ?need = "map (\<lambda>i. map (\<lambda>j. max_demand ! i ! j - allocation ! i ! j) [0..<?m]) [0..<?n]"
  from validate_input_accepted [OF valid]
  have a: "matrix ?n ?m allocation" and lm: "length max_demand = ?n"
    by simp_all
  from lm md have m: "matrix ?n ?m max_demand" by (simp add: matrix_def)
  have need: "matrix ?n ?m ?need" by (rule need_matrix)
  have nn: "0 \<le> sint (allocation ! k ! i)" if "k < ?n" "i < ?m" for k i
    using nonneg a that by (simp add: matrix_def list_all_length)
  have ge: "sint (available ! k) \<le> sint (?av' ! k)" if "k < ?m" for k
    using that av up j by (auto simp: nth_list_update)
  have hi': "sint (?av' ! k) + (\<Sum>i\<in>{0..<?n}. sint (allocation ! i ! k)) < 2 ^ 63" if "k < ?m" for k
  proof -
    from fits that have "sint (?av' ! k) + (\<Sum>row\<leftarrow>allocation. sint (row ! k)) < 2 ^ 63"
      by (simp add: list_all_iff)
    with a show ?thesis by (simp add: sum_list_column matrix_def)
  qed
  have hi: "sint (available ! k) + (\<Sum>i\<in>{0..<?n}. sint (allocation ! i ! k)) < 2 ^ 63"
    if "k < ?m" for k
    using hi' [OF that] ge [OF that] by simp
  from safe_while_can_finish [OF a need refl av nn hi]
  obtain s1 where "safe_while processes ?m allocation ?need (available, replicate ?n False, [])
      = Inr (can_finish ?n ?m allocation ?need available {0..<?n}, s1)"
    by blast
  with safe have "can_finish ?n ?m allocation ?need available {0..<?n}"
    by (simp add: is_safe_state_matrix [OF a m])
  moreover have "list_all (\<lambda>k. sint (available ! k) \<le> sint (?av' ! k)) [0..<?m]"
    using ge by (simp add: list_all_iff)
  ultimately have cf: "can_finish ?n ?m allocation ?need ?av' {0..<?n}"
    by (rule can_finish_mono)
  have av': "length ?av' = ?m" using av by simp
  from safe_while_can_finish [OF a need refl av' nn hi']
  obtain s2 where "safe_while processes ?m allocation ?need (?av', replicate ?n False, [])
      = Inr (can_finish ?n ?m allocation ?need ?av' {0..<?n}, s2)"
    by blast
  with cf show ?thesis
    by (simp add: is_safe_state_matrix [OF a m])
qed

theorem safety_monotone_witness:
  "validate_input [''P0'', ''P1''] [''A''] [[1], [0]] [[1], [5]] [5] = (True, Text '''')
   \<and> list_all (\<lambda>row. length row = length [''A'']) [[1], [5 :: int64]]
   \<and> length [5 :: int64] = length [''A'']
   \<and> list_all (list_all (\<lambda>x. 0 \<le> sint x)) [[1], [0 :: int64]]
   \<and> (0 :: nat) < length [''A''] \<and> sint ([5 :: int64] ! 0) \<le> sint (8 :: int64)
   \<and> list_all (\<lambda>k. sint ([5 :: int64][0 := 8] ! k) + (\<Sum>row\<leftarrow>[[1], [0 :: int64]]. sint (row ! k)) < 2 ^ 63)
        [0..<length [''A'']]
   \<and> is_safe_state [''P0'', ''P1''] [''A''] [[1], [0]] [[1], [5]] [5] = Inr (True, [''P0'', ''P1''])
   \<and> (\<exists>sq'. is_safe_state [''P0'', ''P1''] [''A''] [[1], [0]] [[1], [5]] ([5][0 := 8])
              = Inr (True, sq'))"
proof -
  have v: "validate_input [''P0'', ''P1''] [''A''] [[1], [0]] [[1], [5]] [5] = (True, Text '''')"
    by code_simp
  have md: "list_all (\<lambda>row. length row = length [''A'']) [[1], [5 :: int64]]"
    by simp
  have av: "length [5 :: int64] = length [''A'']"
    by simp
  have nonneg: "list_all (list_all (\<lambda>x. 0 \<le> sint x)) [[1], [0 :: int64]]"
    by simp
  have j: "(0 :: nat) < length [''A'']" and up: "sint ([5 :: int64] ! 0) \<le> sint (8 :: int64)"
    by simp_all
  have fits: "list_all (\<lambda>k. sint ([5 :: int64][0 := 8] ! k)
                  + (\<Sum>row\<leftarrow>[[1], [0 :: int64]]. sint (row ! k)) < 2 ^ 63) [0..<length [''A'']]"
    by simp
  have safe: "is_safe_state [''P0'', ''P1''] [''A''] [[1], [0]] [[1], [5]] [5]
      = Inr (True, [''P0'', ''P1''])"
    by code_simp
  from safety_monotone [OF v md av nonneg j up fits safe] v md av nonneg j up fits safe
  show ?thesis by blast
qed

text \<open>
  The claim as stated fails. With available \<open>[5]\<close> the first input is safe; increased to
  \<open>2^63 - 1\<close>, \<^verbatim>\<open>work += allocation[0]\<close> wraps around to \<open>- 2^63\<close> and the second process is
  never granted. The second input has a negative allocation, which \<open>validate_input\<close>
  accepts: it is safe with 3 available units and unsafe with 5, where the first process is
  granted first and takes units away.
\<close>

theorem safety_monotone_counterexample:
  "validate_input [''P0'', ''P1''] [''A''] [[1], [0]] [[1], [5]] [5] = (True, Text '''')
   \<and> is_safe_state [''P0'', ''P1''] [''A''] [[1], [0]] [[1], [5]] [5] = Inr (True, [''P0'', ''P1''])
   \<and> sint ([5 :: int64] ! 0) \<le> sint (9223372036854775807 :: int64)
   \<and> sint (9223372036854775807 :: int64) = 9223372036854775807
   \<and> validate_input [''P0'', ''P1''] [''A''] [[1], [0]] [[1], [5]] ([5][0 := 9223372036854775807])
       = (True, Text '''')
   \<and> is_safe_state [''P0'', ''P1''] [''A''] [[1], [0]] [[1], [5]] ([5][0 := 9223372036854775807])
       = Inr (False, [])
   \<and> validate_input [''P0'', ''P1''] [''A''] [[- 10], [2]] [[- 5], [5]] [3] = (True, Text '''')
   \<and> is_safe_state [''P0'', ''P1''] [''A''] [[- 10], [2]] [[- 5], [5]] [3] = Inr (True, [''P1'', ''P0''])
   \<and> sint ([3 :: int64] ! 0) \<le> sint (5 :: int64)
   \<and> is_safe_state [''P0'', ''P1''] [''A''] [[- 10], [2]] [[- 5], [5]] ([3][0 := 5])
       = Inr (False, [])"
  by code_simp

section \<open>Total starvation\<close>

text \<open>
  Claim C3. When every resource has zero available units and no process has an all-zero
  row of needs \<open>max_demand - allocation\<close>, \<open>detect_deadlock\<close> returns \<open>True\<close> with the pairs of
  every process, in index order, with the node \<open>Resources\<close>. The matrices have one shape,
  a row for every process, and 64-bit entries. The result does not depend on \<open>find_cycle\<close>
  nor on the resources: the graph is not built.
\<close>

theorem total_starvation_fast_path:
  assumes "length allocation = length processes" and "list_all (\<lambda>row. length row = m) allocation"
    and "length max_demand = length processes" and "list_all (\<lambda>row. length row = m) max_demand"
    and "list_all (\<lambda>x. x = 0) available"
    and "list_all (\<lambda>i. \<not> list_all (\<lambda>j. max_demand ! i ! j - allocation ! i ! j = 0) [0..<m])
           [0..<length processes]"
  shows "detect_deadlock find_cycle processes resources allocation max_demand available
         = Inr (True, map (\<lambda>p. Edge2 p ''Resources'') processes)"
  using assms by (intro detect_deadlock_fast_path [where m = m]) (simp_all add: matrix_def)

theorem total_starvation_fast_path_witness:
  "length [[1, 0], [0, 0 :: int64]] = length [''P0'', ''P1'']
   \<and> list_all (\<lambda>row. length row = 2) [[1, 0], [0, 0 :: int64]]
   \<and> length [[1, 2], [0, 1 :: int64]] = length [''P0'', ''P1'']
   \<and> list_all (\<lambda>row. length row = 2) [[1, 2], [0, 1 :: int64]]
   \<and> list_all (\<lambda>x. x = 0) [0, 0 :: int64]
   \<and> list_all (\<lambda>i. \<not> list_all (\<lambda>j. [[1, 2], [0, 1 :: int64]] ! i ! j - [[1, 0], [0, 0]] ! i ! j = 0) [0..<2])
         [0..<length [''P0'', ''P1'']]
   \<and> detect_deadlock (\<lambda>g. None) [''P0'', ''P1''] [''A'', ''B''] [[1, 0], [0, 0]] [[1, 2], [0, 1]] [0, 0]
       = Inr (True, [Edge2 ''P0'' ''Resources'', Edge2 ''P1'' ''Resources''])"
proof -
  have h: "length [[1, 0], [0, 0 :: int64]] = length [''P0'', ''P1'']"
    "list_all (\<lambda>row. length row = 2) [[1, 0], [0, 0 :: int64]]"
    "length [[1, 2], [0, 1 :: int64]] = length [''P0'', ''P1'']"
    "list_all (\<lambda>row. length row = 2) [[1, 2], [0, 1 :: int64]]"
    "list_all (\<lambda>x. x = 0) [0, 0 :: int64]"
    "list_all (\<lambda>i. \<not> list_all (\<lambda>j. [[1, 2], [0, 1 :: int64]] ! i ! j - [[1, 0], [0, 0]] ! i ! j = 0) [0..<2])
         [0..<length [''P0'', ''P1'']]"
    by (simp_all add: upt_rec)
  from total_starvation_fast_path [OF h, of "\<lambda>g. None" "[''A'', ''B'']"] h show ?thesis
    by simp
qed

section \<open>The cyclic wait of two processes\<close>

text \<open>
  Claim C4, as amended. Two processes, two resources, nothing available; each process holds
  one unit of one resource and needs the resource that the other holds, and no allocation
  exceeds the maximum demand. Then \<open>detect_deadlock\<close> returns \<open>True\<close>, and what it returns with
  it is the marker of the first check: the two pairs of each process, in index order, with
  the node \<open>Resources\<close>. Nothing is available and both processes have a need, so the first
  check returns before the graph is built, whatever \<open>find_cycle\<close> would find in it.
\<close>

theorem cyclic_wait_deadlock:
  assumes hold: "allocation = [[1, 0], [0, 1]] \<or> allocation = [[0, 1], [1, 0]]"
    and md: "length max_demand = 2" "list_all (\<lambda>row. length row = 2) max_demand"
    and le: "list_all (\<lambda>i. list_all (\<lambda>j. sint (allocation ! i ! j) \<le> sint (max_demand ! i ! j)) [0..<2])
               [0..<2]"
    and wait: "list_all (\<lambda>i. list_all (\<lambda>j. allocation ! i ! j = 0
                  \<longrightarrow> 0 < sint (max_demand ! i ! j - allocation ! i ! j)) [0..<2]) [0..<2]"
  shows "detect_deadlock find_cycle [p0, p1] [r0, r1] allocation max_demand [0, 0]
         = Inr (True, [Edge2 p0 ''Resources'', Edge2 p1 ''Resources''])"
proof -
  have a: "matrix (length [p0, p1]) 2 allocation"
    using hold by (auto simp: matrix_def)
  have m: "matrix (length [p0, p1]) 2 max_demand"
    using md by (simp add: matrix_def)
  have need: "list_all (\<lambda>i. \<not> list_all (\<lambda>j. max_demand ! i ! j - allocation ! i ! j = 0) [0..<2])
                 [0..<length [p0, p1]]"
    using hold wait by (auto simp: upt_rec)
  have "detect_deadlock find_cycle [p0, p1] [r0, r1] allocation max_demand [0, 0]
        = Inr (True, map (\<lambda>p. Edge2 p ''Resources'') [p0, p1])"
    using a m _ need by (rule detect_deadlock_fast_path) simp
  then show ?thesis by simp
qed

theorem cyclic_wait_deadlock_witness:
  "([[1, 0], [0, 1]] = [[1, 0], [0, 1 :: int64]] \<or> [[1, 0], [0, 1]] = [[0, 1], [1, 0 :: int64]])
   \<and> length [[1, 1], [1, 1 :: int64]] = 2
   \<and> list_all (\<lambda>row. length row = 2) [[1, 1], [1, 1 :: int64]]
   \<and> list_all (\<lambda>i. list_all (\<lambda>j. sint ([[1, 0], [0, 1 :: int64]] ! i ! j)
          \<le> sint ([[1, 1], [1, 1 :: int64]] ! i ! j)) [0..<2]) [0..<2]
   \<and> list_all (\<lambda>i. list_all (\<lambda>j. [[1, 0], [0, 1 :: int64]] ! i ! j = 0
          \<longrightarrow> 0 < sint ([[1, 1], [1, 1 :: int64]] ! i ! j - [[1, 0], [0, 1]] ! i ! j)) [0..<2]) [0..<2]
   \<and> detect_deadlock (\<lambda>g. None) [''P0'', ''P1''] [''R0'', ''R1''] [[1, 0], [0, 1]] [[1, 1], [1, 1]] [0, 0]
       = Inr (True, [Edge2 ''P0'' ''Resources'', Edge2 ''P1'' ''Resources''])"
proof -
  have hold: "[[1, 0], [0, 1]] = [[1, 0], [0, 1 :: int64]] \<or> [[1, 0], [0, 1]] = [[0, 1], [1, 0 :: int64]]"
    by simp
  have md: "length [[1, 1], [1, 1 :: int64]] = 2" "list_all (\<lambda>row. length row = 2) [[1, 1], [1, 1 :: int64]]"
    by simp_all
  have le: "list_all (\<lambda>i. list_all (\<lambda>j. sint ([[1, 0], [0, 1 :: int64]] ! i ! j)
          \<le> sint ([[1, 1], [1, 1 :: int64]] ! i ! j)) [0..<2]) [0..<2]"
    by (simp add: upt_rec)
  have wait: "list_all (\<lambda>i. list_all (\<lambda>j. [[1, 0], [0, 1 :: int64]] ! i ! j = 0
          \<longrightarrow> 0 < sint ([[1, 1], [1, 1 :: int64]] ! i ! j - [[1, 0], [0, 1]] ! i ! j)) [0..<2]) [0..<2]"
    by (simp add: upt_rec)
  from cyclic_wait_deadlock [OF hold md le wait, of "\<lambda>g. None" "''P0''" "''P1''" "''R0''" "''R1''"]
    hold md le wait
  show ?thesis by simp
qed

text \<open>
  The claim as stated fails: what is returned is not a cycle of hold and wait edges. On the
  input below the graph has the cycle of four edges P0, R1, P1, R0, and \<open>find_cycle\<close> is
  taken to return it; \<open>detect_deadlock\<close> returns the two pairs of the first check all the
  same. They do not form a cycle, and neither resource is a node of them.
\<close>

theorem cyclic_wait_counterexample:
  "build_graph [''P0'', ''P1''] [''R0'', ''R1''] [[0, 1], [1, 0]] [[1, 0], [0, 1]] [0, 0]
     = Inr [(''P0'', Some ''blue'', [''R1'']), (''P1'', Some ''blue'', [''R0'']),
            (''R0'', Some ''red'', [''P0'']), (''R1'', Some ''red'', [''P1''])]
   \<and> is_cycle [Edge3 ''P0'' ''R1'' ''forward'', Edge3 ''R1'' ''P1'' ''forward'',
               Edge3 ''P1'' ''R0'' ''forward'', Edge3 ''R0'' ''P0'' ''forward'']
   \<and> detect_deadlock
        (\<lambda>g. Some [Edge3 ''P0'' ''R1'' ''forward'', Edge3 ''R1'' ''P1'' ''forward'',
                    Edge3 ''P1'' ''R0'' ''forward'', Edge3 ''R0'' ''P0'' ''forward''])
        [''P0'', ''P1''] [''R0'', ''R1''] [[1, 0], [0, 1]] [[1, 1], [1, 1]] [0, 0]
       = Inr (True, [Edge2 ''P0'' ''Resources'', Edge2 ''P1'' ''Resources''])
   \<and> is_cycle [Edge2 ''P0'' ''Resources'', Edge2 ''P1'' ''Resources''] = False
   \<and> set (concat (map edge_nodes [Edge2 ''P0'' ''Resources'', Edge2 ''P1'' ''Resources'']))
       \<inter> set [''R0'', ''R1''] = {}"
  by code_simp

section \<open>The order of the dimension checks\<close>

text \<open>
  Claim C7, as amended. When both matrices convert to arrays, \<open>validate_input\<close> checks, in
  this order and returning at the first failure: the number of processes against the rows
  of the allocation matrix, with a message that names both counts; the number of resources
  against the columns of the allocation matrix, with a message that names both counts; and
  only then the rows of the maximum-demand matrix against the rows of the allocation
  matrix, with one fixed message that names no count.
\<close>

theorem dimension_checks_in_order:
  assumes a: "np_array allocation = Inr allocation" and md: "np_array max_demand = Inr max_demand"
  shows "(length processes \<noteq> length allocation \<longrightarrow>
            validate_input processes resources allocation max_demand available
            = (False, Text (''Number of processes ('' @ str_nat (length processes)
                            @ '') doesn't match allocation matrix rows (''
                            @ str_nat (length allocation) @ '')'')))
       \<and> (length processes = length allocation \<and> allocation \<noteq> []
            \<and> length resources \<noteq> length (allocation ! 0) \<longrightarrow>
            validate_input processes resources allocation max_demand available
            = (False, Text (''Number of resources ('' @ str_nat (length resources)
                            @ '') doesn't match allocation matrix columns (''
                            @ str_nat (length (allocation ! 0)) @ '')'')))
       \<and> (length processes = length allocation \<and> allocation \<noteq> []
            \<and> length resources = length (allocation ! 0)
            \<and> length max_demand \<noteq> length allocation \<longrightarrow>
            validate_input processes resources allocation max_demand available
            = (False, Text ''Max demand matrix dimensions don't match allocation matrix''))"
  using a md by (simp add: validate_input_def validate_checks_def get_row_def)

theorem dimension_checks_in_order_witness:
  "np_array [[1], [1]] = Inr [[1], [1]] \<and> np_array [[1], [1], [1]] = Inr [[1], [1], [1]]
   \<and> np_array [[1, 2]] = Inr [[1, 2]]
   \<and> length [''P0''] \<noteq> length [[1], [1 :: int64]]
   \<and> validate_input [''P0''] [''A''] [[1], [1]] [[1], [1]] [0]
       = (False, Text ''Number of processes (1) doesn't match allocation matrix rows (2)'')
   \<and> length [''P0''] = length [[1, 2 :: int64]] \<and> [[1, 2 :: int64]] \<noteq> []
   \<and> length [''A''] \<noteq> length ([[1, 2 :: int64]] ! 0)
   \<and> validate_input [''P0''] [''A''] [[1, 2]] [[1, 2]] [0]
       = (False, Text ''Number of resources (1) doesn't match allocation matrix columns (2)'')
   \<and> length [''P0'', ''P1''] = length [[1], [1 :: int64]] \<and> [[1], [1 :: int64]] \<noteq> []
   \<and> length [''A''] = length ([[1], [1 :: int64]] ! 0)
   \<and> length [[1], [1], [1 :: int64]] \<noteq> length [[1], [1 :: int64]]
   \<and> validate_input [''P0'', ''P1''] [''A''] [[1], [1]] [[1], [1], [1]] [0]
       = (False, Text ''Max demand matrix dimensions don't match allocation matrix'')"
proof -
  have a2: "np_array [[1], [1]] = Inr [[1], [1]]" and a3: "np_array [[1], [1], [1]] = Inr [[1], [1], [1]]"
    and a12: "np_array [[1, 2]] = Inr [[1, 2]]"
    by (simp_all add: np_array_def)
  have s1: "digit (Suc 0) = CHR ''1''" by code_simp
  have s2: "digit (Suc (Suc 0)) = CHR ''2''" by code_simp
  note s = s1 s2
  from dimension_checks_in_order [OF a2 a2, of "[''P0'']" "[''A'']" "[0]"]
    dimension_checks_in_order [OF a12 a12, of "[''P0'']" "[''A'']" "[0]"]
    dimension_checks_in_order [OF a2 a3, of "[''P0'', ''P1'']" "[''A'']" "[0]"]
    a2 a3 a12
  show ?thesis by (simp add: s)
qed

text \<open>
  The claim as stated fails. With two processes, two rows of allocation and three rows of
  maximum demand, the message has no digit in it, so it names neither count. With one
  process, two resources, one column of allocation and two rows of maximum demand, the
  column check answers, before the rows of the maximum-demand matrix are looked at.
\<close>

theorem dimension_checks_counterexample:
  "length [[1], [1], [1 :: int64]] \<noteq> length [''P0'', ''P1'']
   \<and> validate_input [''P0'', ''P1''] [''A''] [[1], [1]] [[1], [1], [1]] [0]
       = (False, Text ''Max demand matrix dimensions don't match allocation matrix'')
   \<and> set ''Max demand matrix dimensions don't match allocation matrix'' \<inter> set ''0123456789'' = {}
   \<and> length [[1], [1 :: int64]] \<noteq> length [''P0'']
   \<and> validate_input [''P0''] [''A'', ''B''] [[1]] [[1], [1]] [0, 0]
       = (False, Text ''Number of resources (2) doesn't match allocation matrix columns (1)'')"
  by code_simp

section \<open>The divisor of the utilization\<close>

text \<open>
  Claim C9, as amended. On an input of 64-bit integers that \<open>validate_input\<close> accepts, with
  an available entry for every resource, allocations that are not negative and totals
  within 64 bits, the divisor \<open>total_resources[j]\<close> of the utilization of resource \<open>j\<close> is the
  total allocation of \<open>j\<close> plus \<open>available[j]\<close>. It is 0 exactly when \<open>available[j]\<close> is 0 and
  no process holds a unit of \<open>j\<close>, which \<open>validate_input\<close> accepts: the utilization is then not
  a number. The floating-point value of the quotient is not part of the statement.
\<close>

theorem utilization_divisor:
  assumes valid: "validate_input processes resources allocation max_demand available = (True, Text '''')"
    and av: "length available = length resources"
    and nonneg: "list_all (list_all (\<lambda>x. 0 \<le> sint x)) allocation"
    and fits: "list_all (\<lambda>j. sint (available ! j) + (\<Sum>row\<leftarrow>allocation. sint (row ! j)) < 2 ^ 63)
                 [0..<length resources]"
  shows "\<exists>tr. total_resources processes resources allocation max_demand available = Computed tr
           \<and> length tr = length resources
           \<and> list_all (\<lambda>j. sint (tr ! j) = (\<Sum>row\<leftarrow>allocation. sint (row ! j)) + sint (available ! j)
                    \<and> (tr ! j = 0 \<longleftrightarrow> available ! j = 0 \<and> list_all (\<lambda>row. row ! j = 0) allocation))
                [0..<length resources]"
proof -
  let ?n = "length processes" and ?m = "length resources"
  let ?col = "\<lambda>j. (\<Sum>row\<leftarrow>allocation. sint (row ! j))"
  let ?tr = "map (\<lambda>j. np_sum_axis0 allocation ! j + available ! j) [0..<?m]"
  from validate_input_accepted [OF valid]
  have a0: "allocation \<noteq> []" and a: "matrix ?n ?m allocation"
    and av0: "list_all (\<lambda>j. j < length available \<and> 0 \<le> sint (available ! j)) [0..<?m]"
    by simp_all
  have avj: "0 \<le> sint (available ! j)" if "j < ?m" for j
    using av0 that by (simp add: list_all_iff)
  have fit: "sint (available ! j) + ?col j < 2 ^ 63" if "j < ?m" for j
    using fits that by (simp add: list_all_iff)
  have colnn: "0 \<le> ?col j" if j: "j < ?m" for j
  proof (rule sum_list_nonneg)
    fix x assume "x \<in> set (map (\<lambda>row. sint (row ! j)) allocation)"
    then obtain row where "row \<in> set allocation" "x = sint (row ! j)" by auto
    with nonneg a j show "0 \<le> x" by (auto simp: list_all_iff matrix_def)
  qed
  have colfit: "?col j < 2 ^ 63" if "j < ?m" for j
    using fit [OF that] avj [OF that] by simp
  from np_sum_axis0_column [OF a a0 nonneg colfit]
  have ls: "length (np_sum_axis0 allocation) = ?m"
    and sums: "\<And>j. j < ?m \<Longrightarrow> sint (np_sum_axis0 allocation ! j) = ?col j"
    by simp_all
  have bj: "bidx ?m j = j" if "j < ?m" for j
    using that by (auto simp: bidx_def)
  have add: "np_add1 (np_sum_axis0 allocation) available = Inr ?tr"
    by (simp add: np_add1_def ls av bdim_def bj cong: map_cong)
  have tr: "total_resources processes resources allocation max_demand available = Computed ?tr"
    by (simp add: total_resources_def valid np_array_matrix [OF a] add)
  have val: "sint (?tr ! j) = ?col j + sint (available ! j)" if j: "j < ?m" for j
  proof -
    have "sint (np_sum_axis0 allocation ! j + available ! j)
          = sint (np_sum_axis0 allocation ! j) + sint (available ! j)"
      using fit [OF j] avj [OF j] colnn [OF j] sums [OF j] by (intro sint_add_in_range) simp_all
    with j sums [OF j] show ?thesis by simp
  qed
  have zero: "?tr ! j = 0 \<longleftrightarrow> available ! j = 0 \<and> list_all (\<lambda>row. row ! j = 0) allocation"
    if j: "j < ?m" for j
  proof -
    have nn: "list_all (\<lambda>x. 0 \<le> x) (map (\<lambda>row. sint (row ! j)) allocation)"
      using nonneg a j by (auto simp: list_all_iff matrix_def)
    have "?col j = 0 \<longleftrightarrow> list_all (\<lambda>row. row ! j = 0) allocation"
      using sum_list_zero_iff [OF nn] by (simp add: list_all_iff sint_int64_zero)
    moreover have "?tr ! j = 0 \<longleftrightarrow> sint (?tr ! j) = 0"
      by (simp only: sint_int64_zero)
    ultimately show ?thesis
      using avj [OF j] colnn [OF j] val [OF j]
      by (auto simp: add_nonneg_eq_0_iff sint_int64_zero)
  qed
  have "list_all (\<lambda>j. sint (?tr ! j) = ?col j + sint (available ! j)
          \<and> (?tr ! j = 0 \<longleftrightarrow> available ! j = 0 \<and> list_all (\<lambda>row. row ! j = 0) allocation))
        [0..<?m]"
    using zero val by (simp add: list_all_iff)
  with tr show ?thesis by (intro exI [of _ ?tr]) simp
qed

theorem utilization_divisor_witness:
  "validate_input [''P0'', ''P1''] [''A'', ''B''] [[1, 0], [3, 0]] [[1, 2], [3, 4]] [4, 0] = (True, Text '''')
   \<and> length [4, 0 :: int64] = length [''A'', ''B'']
   \<and> list_all (list_all (\<lambda>x. 0 \<le> sint x)) [[1, 0], [3, 0 :: int64]]
   \<and> list_all (\<lambda>j. sint ([4, 0 :: int64] ! j) + (\<Sum>row\<leftarrow>[[1, 0], [3, 0 :: int64]]. sint (row ! j)) < 2 ^ 63)
        [0..<length [''A'', ''B'']]
   \<and> (\<exists>tr. total_resources [''P0'', ''P1''] [''A'', ''B''] [[1, 0], [3, 0]] [[1, 2], [3, 4]] [4, 0]
            = Computed tr \<and> tr = [8, 0]
          \<and> list_all (\<lambda>j. tr ! j = 0 \<longleftrightarrow> [4, 0 :: int64] ! j = 0
                 \<and> list_all (\<lambda>row. row ! j = 0) [[1, 0], [3, 0 :: int64]]) [0..<length [''A'', ''B'']])"
proof -
  have v: "validate_input [''P0'', ''P1''] [''A'', ''B''] [[1, 0], [3, 0]] [[1, 2], [3, 4]] [4, 0]
      = (True, Text '''')"
    by code_simp
  have av: "length [4, 0 :: int64] = length [''A'', ''B'']"
    by simp
  have nonneg: "list_all (list_all (\<lambda>x. 0 \<le> sint x)) [[1, 0], [3, 0 :: int64]]"
    by simp
  have fits: "list_all (\<lambda>j. sint ([4, 0 :: int64] ! j)
                  + (\<Sum>row\<leftarrow>[[1, 0], [3, 0 :: int64]]. sint (row ! j)) < 2 ^ 63) [0..<length [''A'', ''B'']]"
    by (simp add: upt_rec)
  have t: "total_resources [''P0'', ''P1''] [''A'', ''B''] [[1, 0], [3, 0]] [[1, 2], [3, 4]] [4, 0]
      = Computed [8, 0]"
    by code_simp
  from utilization_divisor [OF v av nonneg fits] obtain tr where
    "total_resources [''P0'', ''P1''] [''A'', ''B''] [[1, 0], [3, 0]] [[1, 2], [3, 4]] [4, 0]
      = Computed tr"
    "list_all (\<lambda>j. sint (tr ! j) = (\<Sum>row\<leftarrow>[[1, 0], [3, 0 :: int64]]. sint (row ! j)) + sint ([4, 0 :: int64] ! j)
        \<and> (tr ! j = 0 \<longleftrightarrow> [4, 0 :: int64] ! j = 0 \<and> list_all (\<lambda>row. row ! j = 0) [[1, 0], [3, 0 :: int64]]))
      [0..<length [''A'', ''B'']]"
    by blast
  with t have "tr = [8, 0]"
    and "list_all (\<lambda>j. tr ! j = 0 \<longleftrightarrow> [4, 0 :: int64] ! j = 0
                 \<and> list_all (\<lambda>row. row ! j = 0) [[1, 0], [3, 0 :: int64]]) [0..<length [''A'', ''B'']]"
    by (simp_all add: list_all_iff)
  with v av nonneg fits t show ?thesis by blast
qed

text \<open>
  The claim as stated fails: the input below is accepted, no unit of its resource is
  allocated or available, and the divisor is 0.
\<close>

theorem utilization_counterexample:
  "validate_input [''P0''] [''A''] [[0]] [[1]] [0] = (True, Text '''')
   \<and> np_sum_axis0 [[0]] = [0]
   \<and> total_resources [''P0''] [''A''] [[0]] [[1]] [0] = Computed [0]"
  by code_simp

end
